theory Spec2Isabelle
  imports Complex_Main "HOL-Library.Sublist" "HOL-Library.AList"
begin

section \<open>Strings and the standard-library functions the package calls\<close>

text \<open>
  Go strings are byte sequences; a \<^typ>\<open>string\<close> is a list of bytes.  The functions of
  this section are the ones of the Go packages \<^verbatim>\<open>strings\<close> and \<^verbatim>\<open>strconv\<close> that the
  package calls, written out for the arguments the package passes (a one-byte separator, a
  one-byte cut set, base 10, bit size 64).  \<^verbatim>\<open>strings.ToUpper\<close> is given on ASCII text: a byte
  outside \<^verbatim>\<open>a..z\<close> is kept.
\<close>

definition isUpperChar :: "char \<Rightarrow> bool" where
  "isUpperChar ch = (65 \<le> (of_char ch :: nat) \<and> (of_char ch :: nat) \<le> 90)"

definition isLowerChar :: "char \<Rightarrow> bool" where
  "isLowerChar ch = (97 \<le> (of_char ch :: nat) \<and> (of_char ch :: nat) \<le> 122)"

definition isDigitChar :: "char \<Rightarrow> bool" where
  "isDigitChar ch = (48 \<le> (of_char ch :: nat) \<and> (of_char ch :: nat) \<le> 57)"

definition digitVal :: "char \<Rightarrow> nat" where
  "digitVal ch = of_char ch - 48"

definition upperByte :: "char \<Rightarrow> char" where
  "upperByte ch = (if isLowerChar ch then char_of ((of_char ch :: nat) - 32) else ch)"

definition lowerByte :: "char \<Rightarrow> char" where
  \<comment> \<open>\<^verbatim>\<open>c - 'A' + 'a'\<close> on a byte\<close>
  "lowerByte ch = char_of ((of_char ch :: nat) + 32)"

definition ToUpper :: "string \<Rightarrow> string" where
  "ToUpper s = map upperByte s"

definition HasPrefix :: "string \<Rightarrow> string \<Rightarrow> bool" where
  "HasPrefix s p = prefix p s"

definition TrimLeft :: "string \<Rightarrow> char \<Rightarrow> string" where
  "TrimLeft s c = dropWhile (\<lambda>x. x = c) s"

definition Trim :: "string \<Rightarrow> char \<Rightarrow> string" where
  "Trim s c = rev (dropWhile (\<lambda>x. x = c) (rev (dropWhile (\<lambda>x. x = c) s)))"

definition Replace :: "string \<Rightarrow> char \<Rightarrow> char \<Rightarrow> string" where
  \<comment> \<open>\<^verbatim>\<open>strings.Replace(s, old, new, -1)\<close> for one-byte \<^verbatim>\<open>old\<close> and \<^verbatim>\<open>new\<close>\<close>
  "Replace s old new = map (\<lambda>x. if x = old then new else x) s"

fun Split :: "string \<Rightarrow> char \<Rightarrow> string list" where
  "Split [] sep = [[]]"
| "Split (x # xs) sep =
     (if x = sep then [] # Split xs sep
      else (case Split xs sep of [] \<Rightarrow> [[x]] | w # ws \<Rightarrow> (x # w) # ws))"

fun Join :: "string list \<Rightarrow> string \<Rightarrow> string" where
  "Join [] sep = []"
| "Join [x] sep = x"
| "Join (x # y # ys) sep = x @ sep @ Join (y # ys) sep"

fun IndexByte :: "string \<Rightarrow> char \<Rightarrow> int" where
  "IndexByte [] c = -1"
| "IndexByte (x # xs) c =
     (if x = c then 0 else (let r = IndexByte xs c in if r < 0 then -1 else r + 1))"

datatype NumErr = ErrSyntax | ErrRange

fun parseDigits :: "nat \<Rightarrow> string \<Rightarrow> NumErr + nat" where
  "parseDigits n [] = Inr n"
| "parseDigits n (c # cs) =
     (if \<not> isDigitChar c then Inl ErrSyntax
      else if 2 ^ 64 \<le> n * 10 + digitVal c then Inl ErrRange
      else parseDigits (n * 10 + digitVal c) cs)"

definition ParseUint :: "string \<Rightarrow> NumErr + nat" where
  \<comment> \<open>\<^verbatim>\<open>strconv.ParseUint(s, 10, 64)\<close>\<close>
  "ParseUint s = (if s = [] then Inl ErrSyntax else parseDigits 0 s)"

definition ParseInt :: "string \<Rightarrow> NumErr + int" where
  \<comment> \<open>\<^verbatim>\<open>strconv.ParseInt(s, 10, 64)\<close>\<close>
  "ParseInt s =
     (if s = [] then Inl ErrSyntax
      else let neg = (hd s = CHR ''-'');
               s1 = (if hd s = CHR ''+'' \<or> hd s = CHR ''-'' then tl s else s)
           in case ParseUint s1 of
                Inl ErrSyntax \<Rightarrow> Inl ErrSyntax
              | Inl ErrRange \<Rightarrow> Inl ErrRange
              | Inr un \<Rightarrow>
                  if \<not> neg \<and> 2 ^ 63 \<le> un then Inl ErrRange
                  else if neg \<and> 2 ^ 63 < un then Inl ErrRange
                  else Inr (if neg then - int un else int un))"

definition ParseBool :: "string \<Rightarrow> NumErr + bool" where
  "ParseBool s =
     (if s \<in> set [''1'', ''t'', ''T'', ''TRUE'', ''true'', ''True''] then Inr True
      else if s \<in> set [''0'', ''f'', ''F'', ''FALSE'', ''false'', ''False''] then Inr False
      else Inl ErrSyntax)"

fun digitsOf :: "nat \<Rightarrow> nat \<Rightarrow> string" where
  \<comment> \<open>decimal rendering; the first argument bounds the number of digits\<close>
  "digitsOf 0 n = []"
| "digitsOf (Suc k) n =
     (if n < 10 then [char_of (48 + n)] else digitsOf k (n div 10) @ [char_of (48 + n mod 10)])"

definition Itoa :: "nat \<Rightarrow> string" where
  "Itoa n = digitsOf (Suc n) n"


section \<open>Package gotypes: the coercion engine\<close>

text \<open>
  A \<^verbatim>\<open>reflect.Type\<close> is a type descriptor.  The fourteen scalar types and their slices are the
  ones package gotypes names; \<open>DefinedType\<close> is a type declared by \<^verbatim>\<open>type T U\<close> (its kind is
  the kind of \<open>U\<close>, the descriptor is a different one); \<open>OtherType\<close> stands for the types of
  every other kind (pointers, maps, functions, ...), given by their printed name.  A struct
  type carries its printed name and its fields; a field has its name, type and tag, and
  \<open>Anonymous\<close> tells an embedded field.  \<^verbatim>\<open>int\<close> and \<^verbatim>\<open>uint\<close> are 64 bits wide.
\<close>

datatype GoType =
    BoolType | IntType | Int8Type | Int16Type | Int32Type | Int64Type
  | UintType | Uint8Type | Uint16Type | Uint32Type | Uint64Type
  | Float32Type | Float64Type | StringType
  | SliceOf GoType
  | ArrayOf nat GoType
  | StructOf string "StructField list"
  | DefinedType string GoType
  | OtherType string
and StructField =
  StructField (Name: string) (Type: GoType) (Tag: "(string \<times> string) list")
              (Anonymous: bool)

datatype Kind =
    KBool | KInt | KInt8 | KInt16 | KInt32 | KInt64 | KUint | KUint8 | KUint16 | KUint32 | KUint64
  | KFloat32 | KFloat64 | KString | KSlice | KArray | KStruct | OtherKind

fun KindOf :: "GoType \<Rightarrow> Kind" where
  "KindOf BoolType = KBool"
| "KindOf IntType = KInt"
| "KindOf Int8Type = KInt8"
| "KindOf Int16Type = KInt16"
| "KindOf Int32Type = KInt32"
| "KindOf Int64Type = KInt64"
| "KindOf UintType = KUint"
| "KindOf Uint8Type = KUint8"
| "KindOf Uint16Type = KUint16"
| "KindOf Uint32Type = KUint32"
| "KindOf Uint64Type = KUint64"
| "KindOf Float32Type = KFloat32"
| "KindOf Float64Type = KFloat64"
| "KindOf StringType = KString"
| "KindOf (SliceOf t) = KSlice"
| "KindOf (ArrayOf n t) = KArray"
| "KindOf (StructOf nm fs) = KStruct"
| "KindOf (DefinedType nm t) = KindOf t"
| "KindOf (OtherType nm) = OtherKind"

fun bitsOf :: "Kind \<Rightarrow> nat" where
  "bitsOf KInt8 = 8"
| "bitsOf KUint8 = 8"
| "bitsOf KInt16 = 16"
| "bitsOf KUint16 = 16"
| "bitsOf KInt32 = 32"
| "bitsOf KUint32 = 32"
| "bitsOf k = 64"

fun TypeString :: "GoType \<Rightarrow> string" where
  "TypeString BoolType = ''bool''"
| "TypeString IntType = ''int''"
| "TypeString Int8Type = ''int8''"
| "TypeString Int16Type = ''int16''"
| "TypeString Int32Type = ''int32''"
| "TypeString Int64Type = ''int64''"
| "TypeString UintType = ''uint''"
| "TypeString Uint8Type = ''uint8''"
| "TypeString Uint16Type = ''uint16''"
| "TypeString Uint32Type = ''uint32''"
| "TypeString Uint64Type = ''uint64''"
| "TypeString Float32Type = ''float32''"
| "TypeString Float64Type = ''float64''"
| "TypeString StringType = ''string''"
| "TypeString (SliceOf t) = ''[]'' @ TypeString t"
| "TypeString (ArrayOf n t) = ''['' @ Itoa n @ '']'' @ TypeString t"
| "TypeString (StructOf nm fs) = nm"
| "TypeString (DefinedType nm t) = nm"
| "TypeString (OtherType nm) = nm"

text \<open>
  The content of a variable: integers are kept as mathematical integers inside the range of
  their width, and every conversion to a narrower width is written out (\<open>wrapInt\<close>,
  \<open>wrapUint\<close>).  A \<^verbatim>\<open>reflect.Value\<close> is the type, the content and whether the value may be
  set (\<^verbatim>\<open>CanSet\<close>).
\<close>

datatype GoData =
    BoolD bool | IntD int | UintD nat | FloatD real | StringD string
  | ListD "GoData list" | StructD "GoData list" | OtherD

record Value =
  vtype :: GoType
  vdata :: GoData
  canSet :: bool

definition wrapUint :: "nat \<Rightarrow> nat \<Rightarrow> nat" where
  \<comment> \<open>the conversion \<^verbatim>\<open>uintW(x)\<close>\<close>
  "wrapUint w x = x mod 2 ^ w"

definition wrapInt :: "nat \<Rightarrow> int \<Rightarrow> int" where
  \<comment> \<open>the conversion \<^verbatim>\<open>intW(x)\<close>, two's complement\<close>
  "wrapInt w x = (x + 2 ^ (w - 1)) mod 2 ^ w - 2 ^ (w - 1)"

text \<open>
  What the package takes from outside: the environment (\<^verbatim>\<open>os.Getenv\<close>) and the two
  floating-point operations, \<^verbatim>\<open>strconv.ParseFloat(s, 64)\<close> and the conversion
  \<^verbatim>\<open>float32(x)\<close>, whose rounding is not part of this development.
\<close>

record Extern =
  Getenv :: "string \<Rightarrow> string"
  ParseFloat :: "string \<Rightarrow> NumErr + real"
  toFloat32 :: "real \<Rightarrow> real"

datatype error =
    NumError string string NumErr
  | CannotParse string GoType
  | UnsupportedType GoType
  | CannotAppendNonSlice
  | DefaultOnRequiredPositional
  | UnknownNargs string
  | AfterArrayPositional
  | AfterSubcommand
  | AfterOptionalPositional
  | UnknownArgument string string string
  | NotSet string
  | AtLeast int
  | AtMost int
  | ArgError string error
  | MissingArguments string
  | UnknownOptional string
  | UnknownPositional string
  | NotEnoughArguments
  | MisformatedLine string
  | NoSuchCommand string
  | TokenTooLong
  | Panic

definition intTypes :: "GoType list" where
  "intTypes = [IntType, Int8Type, Int16Type, Int32Type, Int64Type]"

definition uintTypes :: "GoType list" where
  "uintTypes = [UintType, Uint8Type, Uint16Type, Uint32Type, Uint64Type]"

definition ValueOf :: "GoType \<Rightarrow> GoData \<Rightarrow> Value" where
  \<comment> \<open>\<^verbatim>\<open>reflect.ValueOf(x)\<close>: a value that cannot be set\<close>
  "ValueOf t d = \<lparr>vtype = t, vdata = d, canSet = False\<rparr>"

definition ParseValue :: "Extern \<Rightarrow> string \<Rightarrow> GoType \<Rightarrow> error + Value" where
  "ParseValue E val tp =
     (if tp = BoolType then
        (case ParseBool val of
           Inl e \<Rightarrow> Inl (NumError ''ParseBool'' val e)
         | Inr val_bool \<Rightarrow> Inr (ValueOf tp (BoolD val_bool)))
      else if tp \<in> set intTypes then
        (case ParseInt val of
           Inl e \<Rightarrow> Inl (NumError ''ParseInt'' val e)
         | Inr val_int \<Rightarrow> Inr (ValueOf tp (IntD (wrapInt (bitsOf (KindOf tp)) val_int))))
      else if tp \<in> set uintTypes then
        (case ParseUint val of
           Inl e \<Rightarrow> Inl (NumError ''ParseUint'' val e)
         | Inr val_uint \<Rightarrow> Inr (ValueOf tp (UintD (wrapUint (bitsOf (KindOf tp)) val_uint))))
      else if tp = Float32Type \<or> tp = Float64Type then
        (case ParseFloat E val of
           Inl e \<Rightarrow> Inl (NumError ''ParseFloat'' val e)
         | Inr val_float \<Rightarrow>
             Inr (ValueOf tp (FloatD (if tp = Float32Type then toFloat32 E val_float
                                      else val_float))))
      else if tp = StringType then Inr (ValueOf tp (StringD val))
      else Inl (CannotParse val tp))"

text \<open>
  The setters of \<^verbatim>\<open>reflect.Value\<close>: each panics on a value that cannot be set, and stores
  the 64-bit argument converted to the width of the slot.
\<close>

definition SetBool :: "Value \<Rightarrow> bool \<Rightarrow> error + Value" where
  "SetBool v x = (if canSet v then Inr (v\<lparr>vdata := BoolD x\<rparr>) else Inl Panic)"

definition SetInt :: "Value \<Rightarrow> int \<Rightarrow> error + Value" where
  "SetInt v x =
     (if canSet v then Inr (v\<lparr>vdata := IntD (wrapInt (bitsOf (KindOf (vtype v))) x)\<rparr>)
      else Inl Panic)"

definition SetUint :: "Value \<Rightarrow> nat \<Rightarrow> error + Value" where
  "SetUint v x =
     (if canSet v then Inr (v\<lparr>vdata := UintD (wrapUint (bitsOf (KindOf (vtype v))) x)\<rparr>)
      else Inl Panic)"

definition SetFloat :: "Extern \<Rightarrow> Value \<Rightarrow> real \<Rightarrow> error + Value" where
  "SetFloat E v x =
     (if canSet v
      then Inr (v\<lparr>vdata := FloatD (if KindOf (vtype v) = KFloat32 then toFloat32 E x else x)\<rparr>)
      else Inl Panic)"

definition SetString :: "Value \<Rightarrow> string \<Rightarrow> error + Value" where
  "SetString v x = (if canSet v then Inr (v\<lparr>vdata := StringD x\<rparr>) else Inl Panic)"

definition SetValue :: "Extern \<Rightarrow> Value \<Rightarrow> string \<Rightarrow> error + Value" where
  \<comment> \<open>the result of the \<^verbatim>\<open>CanSet\<close> test is dropped by the source, so it is no branch here\<close>
  "SetValue E v val =
     (if vtype v = BoolType then
        (case ParseBool val of
           Inl e \<Rightarrow> Inl (NumError ''ParseBool'' val e)
         | Inr val_bool \<Rightarrow> SetBool v val_bool)
      else if vtype v \<in> set intTypes then
        (case ParseInt val of
           Inl e \<Rightarrow> Inl (NumError ''ParseInt'' val e)
         | Inr val_int \<Rightarrow> SetInt v val_int)
      else if vtype v \<in> set uintTypes then
        (case ParseUint val of
           Inl e \<Rightarrow> Inl (NumError ''ParseUint'' val e)
         | Inr val_uint \<Rightarrow> SetUint v val_uint)
      else if vtype v = Float32Type \<or> vtype v = Float64Type then
        (case ParseFloat E val of
           Inl e \<Rightarrow> Inl (NumError ''ParseFloat'' val e)
         | Inr val_float \<Rightarrow> SetFloat E v val_float)
      else if vtype v = StringType then SetString v val
      else Inl (UnsupportedType (vtype v)))"

definition SliceBaseType :: "GoType \<Rightarrow> GoType option" where
  "SliceBaseType tp =
     (case tp of
        SliceOf t \<Rightarrow>
          (if t = BoolType \<or> t \<in> set intTypes \<or> t \<in> set uintTypes
              \<or> t = Float32Type \<or> t = Float64Type \<or> t = StringType
           then Some t else None)
      | _ \<Rightarrow> None)"

definition AppendValue :: "Extern \<Rightarrow> Value \<Rightarrow> string \<Rightarrow> error + Value" where
  "AppendValue E v val =
     (case SliceBaseType (vtype v) of
        None \<Rightarrow> Inl CannotAppendNonSlice
      | Some tp \<Rightarrow>
          (case ParseValue E val tp of
             Inl e \<Rightarrow> Inl e
           | Inr val_raw \<Rightarrow>
               (case vdata v of
                  ListD xs \<Rightarrow>
                    if canSet v then Inr (v\<lparr>vdata := ListD (xs @ [vdata val_raw])\<rparr>)
                    else Inl Panic
                | _ \<Rightarrow> Inl Panic)))"

fun AppendValues :: "Extern \<Rightarrow> Value \<Rightarrow> string list \<Rightarrow> error + Value" where
  "AppendValues E v [] = Inr v"
| "AppendValues E v (val # vals) =
     (case AppendValue E v val of Inl e \<Rightarrow> Inl e | Inr v' \<Rightarrow> AppendValues E v' vals)"



section \<open>Package structarg: arguments and parsers\<close>

text \<open>
  \<open>SingleArgument\<close> is the struct of the source.  Its field \<^verbatim>\<open>value\<close>, a
  \<^verbatim>\<open>reflect.Value\<close> that points at one field of the target structure, is the record field
  \<open>slot\<close>: every argument is bound to a field of its own, so the content of the target is
  the content of the slots.  \<open>defValue\<close> is \<open>None\<close> for the zero \<^verbatim>\<open>reflect.Value\<close>.  The
  back pointer \<^verbatim>\<open>parser\<close> is read for the program name only and is kept as that name.
  A \<^verbatim>\<open>MultiArgument\<close> adds the two bounds, a \<^verbatim>\<open>SubcommandArgument\<close> the table of its
  subcommands (the callbacks take no part in parsing and are left out).
\<close>

record SingleArgument =
  token :: string
  shortToken :: string
  metavar :: string
  optional :: bool
  positional :: bool
  helpText :: string
  choices :: "string list"
  useDefault :: bool
  defValue :: "Value option"
  slot :: Value
  isSet :: bool
  parserProg :: string

datatype Argument =
    Single SingleArgument
  | Multi SingleArgument (minCount: int) (maxCount: int)
  | Subcommand SingleArgument (subcommands: "(string \<times> ArgumentParser) list")
and ArgumentParser =
  ArgumentParser (prog: string) (description: string) (epilog: string)
                 (optArgs: "Argument list") (posArgs: "Argument list")

fun base :: "Argument \<Rightarrow> SingleArgument" where
  "base (Single sa) = sa"
| "base (Multi sa mn mx) = sa"
| "base (Subcommand sa subs) = sa"

fun withBase :: "Argument \<Rightarrow> SingleArgument \<Rightarrow> Argument" where
  "withBase (Single sa) sa' = Single sa'"
| "withBase (Multi sa mn mx) sa' = Multi sa' mn mx"
| "withBase (Subcommand sa subs) sa' = Subcommand sa' subs"

definition withOptArgs :: "ArgumentParser \<Rightarrow> Argument list \<Rightarrow> ArgumentParser" where
  "withOptArgs this xs =
     ArgumentParser (prog this) (description this) (epilog this) xs (posArgs this)"

definition withPosArgs :: "ArgumentParser \<Rightarrow> Argument list \<Rightarrow> ArgumentParser" where
  "withPosArgs this xs =
     ArgumentParser (prog this) (description this) (epilog this) (optArgs this) xs"

definition TAG_HELP :: string where "TAG_HELP = ''help''"
definition TAG_TOKEN :: string where "TAG_TOKEN = ''token''"
definition TAG_SHORT_TOKEN :: string where "TAG_SHORT_TOKEN = ''short-token''"
definition TAG_METAVAR :: string where "TAG_METAVAR = ''metavar''"
definition TAG_DEFAULT :: string where "TAG_DEFAULT = ''default''"
definition TAG_CHOICES :: string where "TAG_CHOICES = ''choices''"
definition TAG_OPTIONAL :: string where "TAG_OPTIONAL = ''optional''"
definition TAG_SUBCOMMAND :: string where "TAG_SUBCOMMAND = ''subcommand''"
definition TAG_NARGS :: string where "TAG_NARGS = ''nargs''"

definition TagGet :: "(string \<times> string) list \<Rightarrow> string \<Rightarrow> string" where
  \<comment> \<open>\<^verbatim>\<open>f.Tag.Get(key)\<close>: the empty string for a key the tag does not have\<close>
  "TagGet tag key = (case map_of tag key of None \<Rightarrow> [] | Some v \<Rightarrow> v)"

subsection \<open>Tokens\<close>

fun splitCamelLoop :: "string \<Rightarrow> string \<Rightarrow> nat \<Rightarrow> string \<Rightarrow> string" where
  \<comment> \<open>the loop of \<open>splitCamelString\<close>: the bytes from index \<open>i\<close> on, and the buffer\<close>
  "splitCamelLoop str [] i buf = buf"
| "splitCamelLoop str (c # rest) i buf =
     splitCamelLoop str rest (i + 1)
       (if isUpperChar c then
          (if length buf > 0 \<and> \<not> isUpperChar (str ! (i - 1)) \<and> str ! (i - 1) \<noteq> CHR ''-''
           then buf @ ''-'' else buf) @ [lowerByte c]
        else if c = CHR ''_'' then buf @ ''-''
        else buf @ [c])"

definition splitCamelString :: "string \<Rightarrow> string" where
  "splitCamelString str = (if ToUpper str = str then str else splitCamelLoop str str 0 [])"

definition Token :: "Argument \<Rightarrow> string" where
  "Token a = splitCamelString (token (base a))"

definition ShortToken :: "Argument \<Rightarrow> string" where
  "ShortToken a = shortToken (base a)"

definition MetaVar :: "Argument \<Rightarrow> string" where
  "MetaVar a =
     (if length (metavar (base a)) > 0 then metavar (base a)
      else if length (choices (base a)) > 0 then ''{'' @ Join (choices (base a)) '','' @ ''}''
      else ToUpper (Replace (Token a) (CHR ''-'') (CHR ''_'')))"

definition IsOptional :: "Argument \<Rightarrow> bool" where
  "IsOptional a = optional (base a)"

definition IsPositional :: "Argument \<Rightarrow> bool" where
  "IsPositional a = positional (base a)"

fun IsMulti :: "Argument \<Rightarrow> bool" where
  "IsMulti (Multi sa mn mx) = True"
| "IsMulti a = False"

fun IsSubcommand :: "Argument \<Rightarrow> bool" where
  "IsSubcommand (Subcommand sa subs) = True"
| "IsSubcommand a = False"

definition NeedData :: "Argument \<Rightarrow> bool" where
  "NeedData a = (if KindOf (vtype (slot (base a))) = KBool then False else True)"

definition InChoices :: "SingleArgument \<Rightarrow> string \<Rightarrow> bool" where
  "InChoices sa val = (if length (choices sa) > 0 then val \<in> set (choices sa) else True)"

subsection \<open>Registration\<close>

definition AddArgument :: "ArgumentParser \<Rightarrow> Argument \<Rightarrow> error + ArgumentParser" where
  "AddArgument this arg =
     (if IsPositional arg then
        (if length (posArgs this) > 0 then
           (let last_arg = last (posArgs this)
            in if IsMulti last_arg then Inl AfterArrayPositional
               else if IsSubcommand last_arg then Inl AfterSubcommand
               else if IsOptional last_arg \<and> \<not> IsOptional arg
                 then Inl AfterOptionalPositional
               else Inr (withPosArgs this (posArgs this @ [arg])))
         else Inr (withPosArgs this (posArgs this @ [arg])))
      else Inr (withOptArgs this (optArgs this @ [arg])))"

fun firstDefault :: "Extern \<Rightarrow> string list \<Rightarrow> string \<Rightarrow> error + string" where
  \<comment> \<open>the loop over the candidates of the default tag; \<^verbatim>\<open>dv[0]\<close> panics on an empty one\<close>
  "firstDefault E [] defval = Inr defval"
| "firstDefault E (dv # dvs) defval =
     (if dv = [] then Inl Panic
      else let dv' = (if hd dv = CHR ''$'' then Getenv E (TrimLeft dv (CHR ''$'')) else dv)
           in if length dv' > 0 then Inr dv' else firstDefault E dvs dv')"

definition derivedClass :: "string \<Rightarrow> bool \<times> bool" where
  \<comment> \<open>\<open>(positional, optional)\<close> as the name of the field gives them\<close>
  "derivedClass name = (if name = ToUpper name then (True, False) else (False, True))"

definition addArgument ::
  "Extern \<Rightarrow> ArgumentParser \<Rightarrow> StructField \<Rightarrow> Value \<Rightarrow> error + ArgumentParser" where
  "addArgument E this f v =
     (let help = TagGet (Tag f) TAG_HELP;
          token0 = TagGet (Tag f) TAG_TOKEN;
          token1 = (if length token0 = 0 then Name f else token0);
          shorttoken = TagGet (Tag f) TAG_SHORT_TOKEN;
          metavar1 = TagGet (Tag f) TAG_METAVAR;
          defval0 = TagGet (Tag f) TAG_DEFAULT
      in case (if length defval0 > 0 then firstDefault E (Split defval0 (CHR ''|'')) defval0
               else Inr defval0) of
           Inl e \<Rightarrow> Inl e
         | Inr defval \<Rightarrow>
            (let use_default = (length defval \<noteq> 0);
                 choices_str = TagGet (Tag f) TAG_CHOICES;
                 choices1 = (if length choices_str > 0
                             then filter (\<lambda>s. length s > 0) (Split choices_str (CHR ''|''))
                             else []);
                 positional0 = fst (derivedClass (Name f));
                 optional0 = snd (derivedClass (Name f));
                 opt_val = TagGet (Tag f) TAG_OPTIONAL;
                 optional1 = (if length opt_val > 0
                              then (if opt_val = ''true'' then True
                                    else if opt_val = ''false'' then False
                                    else optional0)
                              else optional0)
             in if positional0 \<and> \<not> optional1 \<and> use_default
                then Inl DefaultOnRequiredPositional
                else
                 (let subcommand = (case ParseBool (TagGet (Tag f) TAG_SUBCOMMAND) of
                                      Inl e \<Rightarrow> False | Inr b \<Rightarrow> b)
                  in case (if use_default
                           then (case ParseValue E defval (Type f) of
                                   Inl e \<Rightarrow> Inl e | Inr d \<Rightarrow> Inr (Some d))
                           else Inr None) of
                       Inl e \<Rightarrow> Inl e
                     | Inr defval_t \<Rightarrow>
                        (let sarg = \<lparr>token = token1, shortToken = shorttoken,
                                     metavar = metavar1,
                                     optional = (if subcommand then False else optional1),
                                     positional = (if subcommand then True else positional0),
                                     helpText = help, choices = choices1,
                                     useDefault = use_default, defValue = defval_t,
                                     slot = v, isSet = False, parserProg = prog this\<rparr>
                         in if subcommand then AddArgument this (Subcommand sarg [])
                            else if KindOf (Type f) = KArray then
                              (let nargs = TagGet (Tag f) TAG_NARGS
                               in if nargs = ''*'' then AddArgument this (Multi sarg 0 (-1))
                                  else if nargs = ''?'' then AddArgument this (Multi sarg 0 1)
                                  else if nargs = ''+'' then AddArgument this (Multi sarg 1 (-1))
                                  else (case ParseInt nargs of
                                          Inr n \<Rightarrow> AddArgument this (Multi sarg n n)
                                        | Inl e \<Rightarrow> Inl (UnknownNargs nargs)))
                            else AddArgument this (Single sarg)))))"

text \<open>
  \<^verbatim>\<open>val.Field(i)\<close> can be set when the structure can and the field is exported.  A field
  that is not exported makes every field below it read-only, unless it is an embedded
  field: the exported fields of an embedded structure of unexported type can still be set.
  A nested structure is never a slot itself, so the flag of the value handed to the
  recursive call is the one its fields start from.
\<close>

definition exported :: "string \<Rightarrow> bool" where
  \<comment> \<open>a field can be set through reflection when its name starts with an upper-case letter\<close>
  "exported name = (case name of [] \<Rightarrow> False | c # cs \<Rightarrow> isUpperChar c)"

fun addStructArgument ::
  "Extern \<Rightarrow> ArgumentParser \<Rightarrow> GoType \<Rightarrow> Value \<Rightarrow> error + ArgumentParser"
and addStructFields ::
  "Extern \<Rightarrow> ArgumentParser \<Rightarrow> StructField list \<Rightarrow> GoData list \<Rightarrow> bool
     \<Rightarrow> error + ArgumentParser" where
  "addStructArgument E this (StructOf nm fs) val =
     (case vdata val of
        StructD ds \<Rightarrow> addStructFields E this fs ds (canSet val)
      | _ \<Rightarrow> Inl Panic)"
| "addStructArgument E this (DefinedType nm t) val = addStructArgument E this t val"
| "addStructArgument E this tp val = Inl Panic"
| "addStructFields E this [] ds cs = Inr this"
| "addStructFields E this (StructField name tp tag anon # fs) ds cs =
     (case ds of
        [] \<Rightarrow> Inl Panic
      | d # ds' \<Rightarrow>
          (let v = \<lparr>vtype = tp, vdata = d, canSet = (cs \<and> exported name)\<rparr>
           in if KindOf tp = KStruct
              then addStructArgument E this tp (v\<lparr>canSet := (cs \<and> (exported name \<or> anon))\<rparr>)
              else (case addArgument E this (StructField name tp tag anon) v of
                      Inl e \<Rightarrow> Inl e
                    | Inr this' \<Rightarrow> addStructFields E this' fs ds' cs)))"

definition NewArgumentParser ::
  "Extern \<Rightarrow> GoType \<times> GoData \<Rightarrow> string \<Rightarrow> string \<Rightarrow> string \<Rightarrow> error + ArgumentParser" where
  \<comment> \<open>the target is given by what the pointer points at: a type and its content\<close>
  "NewArgumentParser E target prog1 desc epilog1 =
     addStructArgument E (ArgumentParser prog1 desc epilog1 [] []) (fst target)
       \<lparr>vtype = fst target, vdata = snd target, canSet = True\<rparr>"



subsection \<open>Setting, toggling and validating one argument\<close>

definition SingleArgument_SetValue ::
  "Extern \<Rightarrow> Argument \<Rightarrow> string \<Rightarrow> error + SingleArgument" where
  "SingleArgument_SetValue E a val =
     (if \<not> InChoices (base a) val
      then Inl (UnknownArgument val (token (base a)) (MetaVar a))
      else (case SetValue E (slot (base a)) val of
              Inl e \<Rightarrow> Inl e
            | Inr v \<Rightarrow> Inr ((base a)\<lparr>slot := v, isSet := True\<rparr>)))"

definition MultiArgument_SetValue ::
  "Extern \<Rightarrow> Argument \<Rightarrow> string \<Rightarrow> error + SingleArgument" where
  "MultiArgument_SetValue E a val =
     (if \<not> InChoices (base a) val
      then Inl (UnknownArgument val (Token a) (MetaVar a))
      else (case AppendValue E (slot (base a)) val of
              Inl e \<Rightarrow> Inl e
            | Inr v \<Rightarrow> Inr ((base a)\<lparr>slot := v, isSet := True\<rparr>)))"

definition Argument_SetValue :: "Extern \<Rightarrow> Argument \<Rightarrow> string \<Rightarrow> error + Argument" where
  \<comment> \<open>\<^verbatim>\<open>arg.SetValue(val)\<close> through the interface: only \<^verbatim>\<open>MultiArgument\<close> overrides it\<close>
  "Argument_SetValue E a val =
     (case (if IsMulti a then MultiArgument_SetValue E a val
            else SingleArgument_SetValue E a val) of
        Inl e \<Rightarrow> Inl e
      | Inr sa \<Rightarrow> Inr (withBase a sa))"

definition DoAction :: "Argument \<Rightarrow> error + Argument" where
  "DoAction a =
     (if vtype (slot (base a)) = BoolType then
        (case (if useDefault (base a) then
                 (case defValue (base a) of
                    Some d \<Rightarrow> (case vdata d of
                                 BoolD b \<Rightarrow> SetBool (slot (base a)) (\<not> b)
                               | _ \<Rightarrow> Inl Panic)
                  | None \<Rightarrow> Inl Panic)
               else SetBool (slot (base a)) True) of
           Inl e \<Rightarrow> Inl e
         | Inr v \<Rightarrow> Inr (withBase a ((base a)\<lparr>slot := v, isSet := True\<rparr>)))
      else Inr a)"

definition ValueSet :: "Value \<Rightarrow> Value option \<Rightarrow> error + Value" where
  \<comment> \<open>\<^verbatim>\<open>v.Set(x)\<close>: panics on the zero value, on a slot that cannot be set and on another type\<close>
  "ValueSet v x =
     (case x of
        None \<Rightarrow> Inl Panic
      | Some d \<Rightarrow> if canSet v \<and> vtype d = vtype v then Inr (v\<lparr>vdata := vdata d\<rparr>)
                  else Inl Panic)"

definition ValueLen :: "Value \<Rightarrow> error + int" where
  \<comment> \<open>\<^verbatim>\<open>v.Len()\<close>: the length of an array, a slice or a string; a panic on the other kinds\<close>
  "ValueLen v =
     (case vdata v of
        ListD xs \<Rightarrow> if KindOf (vtype v) = KArray \<or> KindOf (vtype v) = KSlice
                    then Inr (int (length xs)) else Inl Panic
      | StringD s \<Rightarrow> if KindOf (vtype v) = KString then Inr (int (length s)) else Inl Panic
      | _ \<Rightarrow> Inl Panic)"

definition ValueString :: "Value \<Rightarrow> string" where
  \<comment> \<open>\<^verbatim>\<open>v.String()\<close>\<close>
  "ValueString v =
     (case vdata v of
        StringD s \<Rightarrow> if KindOf (vtype v) = KString then s
                      else ''<'' @ TypeString (vtype v) @ '' Value>''
      | _ \<Rightarrow> ''<'' @ TypeString (vtype v) @ '' Value>'')"

definition SingleArgument_Validate :: "SingleArgument \<Rightarrow> error + SingleArgument" where
  "SingleArgument_Validate sa =
     (if \<not> optional sa \<and> \<not> isSet sa \<and> \<not> useDefault sa then Inl (NotSet (token sa))
      else if \<not> isSet sa \<and> useDefault sa then
        (case ValueSet (slot sa) (defValue sa) of
           Inl e \<Rightarrow> Inl e
         | Inr v \<Rightarrow> Inr (sa\<lparr>slot := v\<rparr>))
      else Inr sa)"

definition MultiArgument_Validate ::
  "SingleArgument \<Rightarrow> int \<Rightarrow> int \<Rightarrow> error + SingleArgument" where
  "MultiArgument_Validate sa mn mx =
     (case SingleArgument_Validate sa of
        Inl e \<Rightarrow> Inl e
      | Inr sa' \<Rightarrow>
          (case ValueLen (slot sa') of
             Inl e \<Rightarrow> Inl e
           | Inr vallen \<Rightarrow>
               if mn \<ge> 0 \<and> vallen < mn then Inl (AtLeast mn)
               else if mx \<ge> 0 \<and> vallen > mx then Inl (AtMost mx)
               else Inr sa'))"

fun Argument_Validate :: "Argument \<Rightarrow> error + Argument" where
  "Argument_Validate (Single sa) =
     (case SingleArgument_Validate sa of Inl e \<Rightarrow> Inl e | Inr sa' \<Rightarrow> Inr (Single sa'))"
| "Argument_Validate (Multi sa mn mx) =
     (case MultiArgument_Validate sa mn mx of
        Inl e \<Rightarrow> Inl e | Inr sa' \<Rightarrow> Inr (Multi sa' mn mx))"
| "Argument_Validate (Subcommand sa subs) =
     (case SingleArgument_Validate sa of
        Inl e \<Rightarrow> Inl e | Inr sa' \<Rightarrow> Inr (Subcommand sa' subs))"

fun validateArgs :: "Argument list \<Rightarrow> error + Argument list" where
  "validateArgs [] = Inr []"
| "validateArgs (arg # args) =
     (case Argument_Validate arg of
        Inl Panic \<Rightarrow> Inl Panic
      | Inl e \<Rightarrow> Inl (ArgError (Token arg) e)
      | Inr arg' \<Rightarrow>
          (case validateArgs args of Inl e \<Rightarrow> Inl e | Inr args' \<Rightarrow> Inr (arg' # args')))"

definition Validate :: "ArgumentParser \<Rightarrow> error + ArgumentParser" where
  "Validate this =
     (case validateArgs (posArgs this) of
        Inl e \<Rightarrow> Inl e
      | Inr ps \<Rightarrow>
          (case validateArgs (optArgs this) of
             Inl e \<Rightarrow> Inl e
           | Inr os \<Rightarrow> Inr (withOptArgs (withPosArgs this ps) os)))"

subsection \<open>Subcommands\<close>

text \<open>
  \<open>GetSubParser\<close> and \<open>AddSubParser\<close> are methods of \<^verbatim>\<open>SubcommandArgument\<close>: they are
  applied to arguments built by \<open>Subcommand\<close> only.  A \<^verbatim>\<open>nil\<close> parser is \<open>None\<close>.
\<close>

definition GetSubParser :: "Argument \<Rightarrow> ArgumentParser option" where
  "GetSubParser a = map_of (subcommands a) (ValueString (slot (base a)))"

definition GetSubcommand :: "ArgumentParser \<Rightarrow> Argument option" where
  "GetSubcommand this =
     (if length (posArgs this) > 0 \<and> IsSubcommand (last (posArgs this))
      then Some (last (posArgs this)) else None)"

definition AddSubParser ::
  "Extern \<Rightarrow> Argument \<Rightarrow> GoType \<times> GoData \<Rightarrow> string \<Rightarrow> string \<Rightarrow> error + Argument" where
  \<comment> \<open>a method of \<^verbatim>\<open>SubcommandArgument\<close>; the result is the receiver after the call\<close>
  "AddSubParser E a target command desc =
     (case NewArgumentParser E target (parserProg (base a) @ '' '' @ command) desc [] of
        Inl e \<Rightarrow> Inl e
      | Inr parser \<Rightarrow>
          Inr (Subcommand ((base a)\<lparr>choices := choices (base a) @ [command]\<rparr>)
                 (AList.update command parser (subcommands a))))"

subsection \<open>Parsing a token stream\<close>

fun findOptionalLoop :: "Argument list \<Rightarrow> string \<Rightarrow> nat \<Rightarrow> nat option \<Rightarrow> nat option" where
  "findOptionalLoop [] tok i match_arg = match_arg"
| "findOptionalLoop (arg # args) tok i match_arg =
     (if HasPrefix (Token arg) tok \<or> HasPrefix (ShortToken arg) tok then
        (if match_arg \<noteq> None then None
         else findOptionalLoop args tok (i + 1) (Some i))
      else findOptionalLoop args tok (i + 1) match_arg)"

definition findOptionalArgument :: "ArgumentParser \<Rightarrow> string \<Rightarrow> nat option" where
  \<comment> \<open>the argument found is given by its index in \<open>optArgs\<close>; \<open>None\<close> is \<^verbatim>\<open>nil\<close>\<close>
  "findOptionalArgument this tok = findOptionalLoop (optArgs this) tok 0 None"

function ParseArgs :: "Extern \<Rightarrow> ArgumentParser \<Rightarrow> string list \<Rightarrow> bool \<Rightarrow> error + ArgumentParser"
and parseLoop ::
  "Extern \<Rightarrow> ArgumentParser \<Rightarrow> nat \<Rightarrow> string list \<Rightarrow> bool \<Rightarrow> error + ArgumentParser \<times> nat"
where
  "ParseArgs E this args ignore_unknown =
     (case parseLoop E this 0 args ignore_unknown of
        Inl e \<Rightarrow> Inl e
      | Inr (this', pos_idx) \<Rightarrow>
          if pos_idx < length (posArgs this') \<and> \<not> IsOptional (posArgs this' ! pos_idx)
          then Inl NotEnoughArguments
          else Validate this')"
| "parseLoop E this pos_idx [] ignore_unknown = Inr (this, pos_idx)"
| "parseLoop E this pos_idx (a # rest) ignore_unknown =
     (if HasPrefix a ''-'' then
        (case findOptionalArgument this (TrimLeft a (CHR ''-'')) of
           Some j \<Rightarrow>
             (if NeedData (optArgs this ! j) then
                (case rest of
                   v # rest' \<Rightarrow>
                     (case Argument_SetValue E (optArgs this ! j) v of
                        Inl e \<Rightarrow> Inl e
                      | Inr arg' \<Rightarrow>
                          parseLoop E (withOptArgs this ((optArgs this)[j := arg']))
                            pos_idx rest' ignore_unknown)
                 | [] \<Rightarrow> Inl (MissingArguments a))
              else
                (case DoAction (optArgs this ! j) of
                   Inl e \<Rightarrow> Inl e
                 | Inr arg' \<Rightarrow>
                     parseLoop E (withOptArgs this ((optArgs this)[j := arg']))
                       pos_idx rest ignore_unknown))
         | None \<Rightarrow>
             if \<not> ignore_unknown then Inl (UnknownOptional a)
             else parseLoop E this pos_idx rest ignore_unknown)
      else if pos_idx \<ge> length (posArgs this) then
        (if length (posArgs this) > 0 then
           (if IsMulti (last (posArgs this)) then
              (case Argument_SetValue E (last (posArgs this)) a of
                 Inl Panic \<Rightarrow> Inl Panic
               | Inl e \<Rightarrow> parseLoop E this pos_idx rest ignore_unknown
               | Inr last_arg' \<Rightarrow>
                   parseLoop E
                     (withPosArgs this ((posArgs this)[length (posArgs this) - 1 := last_arg']))
                     pos_idx rest ignore_unknown)
            else if \<not> ignore_unknown then Inl (UnknownPositional a)
            else parseLoop E this pos_idx rest ignore_unknown)
         else if \<not> ignore_unknown then Inl (UnknownPositional a)
         else parseLoop E this pos_idx rest ignore_unknown)
      else
        (case Argument_SetValue E (posArgs this ! pos_idx) a of
           Inl e \<Rightarrow> Inl e
         | Inr arg' \<Rightarrow>
             if IsSubcommand arg' then
               (case GetSubParser arg' of
                  None \<Rightarrow> Inl Panic
                | Some subparser \<Rightarrow>
                    (case ParseArgs E subparser rest ignore_unknown of
                       Inl e \<Rightarrow> Inl e
                     | Inr subparser' \<Rightarrow>
                         Inr (withPosArgs this ((posArgs this)[pos_idx :=
                                Subcommand (base arg')
                                  (AList.update (ValueString (slot (base arg'))) subparser'
                                     (subcommands arg'))]),
                              pos_idx + 1)))
             else parseLoop E (withPosArgs this ((posArgs this)[pos_idx := arg']))
                    (pos_idx + 1) rest ignore_unknown))"
  by pat_completeness auto
termination
  by (relation "measure (\<lambda>x. case x of
                   Inl (E, this, args, ig) \<Rightarrow> 2 * length args + 1
                 | Inr (E, this, pos_idx, args, ig) \<Rightarrow> 2 * length args)") auto

declare ParseArgs.simps [simp del]

declare parseLoop.simps [simp del]

definition ParseKnownArgs :: "Extern \<Rightarrow> ArgumentParser \<Rightarrow> string list \<Rightarrow> error + ArgumentParser" where
  "ParseKnownArgs E this args = ParseArgs E this args True"

subsection \<open>Reading a key-value file\<close>

text \<open>
  \<^verbatim>\<open>log.Printf\<close> is an effect: the functions below return the lines they log.
  \<open>scanLines\<close> is \<^verbatim>\<open>bufio.Scanner\<close> with its default split function and buffer: the lines
  of the content without their end-of-line marker, up to the first line of 65536 bytes or
  more, where the scanner stops with an error.
\<close>

definition parseKeyValue ::
  "Extern \<Rightarrow> ArgumentParser \<Rightarrow> string \<Rightarrow> string \<Rightarrow> error + ArgumentParser \<times> string list" where
  "parseKeyValue E this key val =
     (case findOptionalArgument this key of
        Some j \<Rightarrow>
          (case Argument_SetValue E (optArgs this ! j) val of
             Inl e \<Rightarrow> Inl e
           | Inr arg' \<Rightarrow> Inr (withOptArgs this ((optArgs this)[j := arg']), []))
      | None \<Rightarrow> Inr (this, [''Cannot found argument '' @ key]))"

definition dropCR :: "string \<Rightarrow> string" where
  "dropCR s = (if s \<noteq> [] \<and> last s = CHR 0x0D then butlast s else s)"

definition rawLines :: "string \<Rightarrow> string list" where
  "rawLines content =
     (let ls = Split content (CHR 0x0A) in if last ls = [] then butlast ls else ls)"

definition scanLines :: "string \<Rightarrow> string list \<times> bool" where
  "scanLines content =
     (map dropCR (takeWhile (\<lambda>l. length l < 65536) (rawLines content)),
      \<exists>l \<in> set (rawLines content). \<not> length l < 65536)"

fun parseLines ::
  "Extern \<Rightarrow> ArgumentParser \<Rightarrow> string list \<Rightarrow> string list
     \<Rightarrow> error + ArgumentParser \<times> string list" where
  "parseLines E this logged [] = Inr (this, logged)"
| "parseLines E this logged (line # lines) =
     (let pos = IndexByte line (CHR ''='')
      in if pos > 0 \<and> pos < int (length line) then
           (let key = Replace (Trim (take (nat pos) line) (CHR '' '')) (CHR ''_'') (CHR ''-'');
                val = Trim (drop (nat pos + 1) line) (CHR '' '')
            in case parseKeyValue E this key val of
                 Inl Panic \<Rightarrow> Inl Panic
               | Inl e \<Rightarrow> parseLines E this logged lines
               | Inr (this', msgs) \<Rightarrow> parseLines E this' (logged @ msgs) lines)
         else Inl (MisformatedLine line))"

definition ParseFile ::
  "Extern \<Rightarrow> ArgumentParser \<Rightarrow> error + string \<Rightarrow> error + ArgumentParser \<times> string list" where
  \<comment> \<open>the third argument is what opening and reading the path gives: an error or the content\<close>
  "ParseFile E this opened =
     (case opened of
        Inl e \<Rightarrow> Inl e
      | Inr content \<Rightarrow>
          (case parseLines E this [] (fst (scanLines content)) of
             Inl e \<Rightarrow> Inl e
           | Inr r \<Rightarrow> if snd (scanLines content) then Inl TokenTooLong else Inr r))"



section \<open>Concrete inputs and measures used by the properties\<close>

definition testExtern :: Extern where
  \<comment> \<open>an empty environment; no property below reaches the floating-point operations\<close>
  "testExtern = \<lparr>Getenv = (\<lambda>k. []), ParseFloat = (\<lambda>s. Inl ErrSyntax), toFloat32 = (\<lambda>x. x)\<rparr>"

definition uint8Slot :: Value where
  "uint8Slot = \<lparr>vtype = Uint8Type, vdata = UintD 0, canSet = True\<rparr>"

definition decimalValue :: "string \<Rightarrow> nat" where
  \<comment> \<open>the number a string of decimal digits denotes\<close>
  "decimalValue s = foldl (\<lambda>n c. n * 10 + digitVal c) 0 s"

definition sampleArg :: "string \<Rightarrow> bool \<Rightarrow> bool \<Rightarrow> Value \<Rightarrow> SingleArgument" where
  \<comment> \<open>an argument as \<open>addArgument\<close> builds it for a field without tags\<close>
  "sampleArg tok pos opt v =
     \<lparr>token = tok, shortToken = [], metavar = [], optional = opt, positional = pos,
      helpText = [], choices = [], useDefault = False, defValue = None, slot = v,
      isSet = False, parserProg = ''prog''\<rparr>"

definition stringSlot :: Value where
  "stringSlot = \<lparr>vtype = StringType, vdata = StringD [], canSet = True\<rparr>"

definition intSliceSlot :: Value where
  "intSliceSlot = \<lparr>vtype = SliceOf IntType, vdata = ListD [], canSet = True\<rparr>"

definition nameArg :: Argument where
  "nameArg = Single (sampleArg ''NAME'' True False stringSlot)"

definition numsArg :: Argument where
  "numsArg = Multi (sampleArg ''NUMS'' True False intSliceSlot) 1 (-1)"

text \<open>
  The invariant of the positional sequence: no multi-valued or subcommand argument before
  the last position, and no required argument after an optional one.
\<close>

definition positionalInvariant :: "Argument list \<Rightarrow> bool" where
  "positionalInvariant ps =
     (list_all (\<lambda>a. \<not> IsMulti a \<and> \<not> IsSubcommand a) (butlast ps)
      \<and> sorted_wrt (\<lambda>a b. IsOptional a \<longrightarrow> IsOptional b) ps)"

fun registerAll :: "ArgumentParser \<Rightarrow> Argument list \<Rightarrow> error + ArgumentParser" where
  \<comment> \<open>a sequence of calls of \<open>AddArgument\<close>, stopped by the first error\<close>
  "registerAll this [] = Inr this"
| "registerAll this (arg # args) =
     (case AddArgument this arg of Inl e \<Rightarrow> Inl e | Inr this' \<Rightarrow> registerAll this' args)"

text \<open>
  The token of an identifier, in the words of the specification: a separator before every
  upper-case letter that follows a byte which is neither an upper-case letter nor a
  separator, every upper-case letter in lower case, every underscore a separator.
\<close>

definition boundaryAt :: "string \<Rightarrow> nat \<Rightarrow> bool" where
  "boundaryAt str i =
     (0 < i \<and> isUpperChar (str ! i) \<and> \<not> isUpperChar (str ! (i - 1))
      \<and> str ! (i - 1) \<noteq> CHR ''-'')"

definition tokenByte :: "char \<Rightarrow> char" where
  "tokenByte c = (if isUpperChar c then lowerByte c else if c = CHR ''_'' then CHR ''-'' else c)"

definition hyphenated :: "string \<Rightarrow> string" where
  "hyphenated str =
     concat (map (\<lambda>i. (if boundaryAt str i then ''-'' else []) @ [tokenByte (str ! i)])
               [0..<length str])"

definition matchesToken :: "Argument \<Rightarrow> string \<Rightarrow> bool" where
  \<comment> \<open>the test of \<open>findOptionalArgument\<close> for one argument\<close>
  "matchesToken arg tok = (HasPrefix (Token arg) tok \<or> HasPrefix (ShortToken arg) tok)"



definition boolSlot :: Value where
  "boolSlot = \<lparr>vtype = BoolType, vdata = BoolD False, canSet = True\<rparr>"

definition fooTarget :: "GoType \<times> GoData" where
  \<comment> \<open>\<^verbatim>\<open>struct { FooAlpha string; FooBeta string }\<close>\<close>
  "fooTarget =
     (StructOf ''main.Options''
        [StructField ''FooAlpha'' StringType [] False,
         StructField ''FooBeta'' StringType [] False],
      StructD [StringD [], StringD []])"

definition fooParser :: ArgumentParser where
  "fooParser =
     ArgumentParser ''prog'' [] []
       [Single (sampleArg ''FooAlpha'' False True stringSlot),
        Single (sampleArg ''FooBeta'' False True stringSlot)] []"

definition filesTarget :: "GoType \<times> GoData" where
  \<comment> \<open>\<^verbatim>\<open>struct { Files [2]string `optional:"false" nargs:"*"` }\<close>\<close>
  "filesTarget =
     (StructOf ''main.Options''
        [StructField ''Files'' (ArrayOf 2 StringType)
           [(''optional'', ''false''), (''nargs'', ''*'')] False],
      StructD [ListD [StringD [], StringD []]])"

definition requiredFiles :: Argument where
  "requiredFiles =
     Multi (sampleArg ''Files'' False False
              \<lparr>vtype = ArrayOf 2 StringType, vdata = ListD [StringD [], StringD []],
               canSet = True\<rparr>) 0 (-1)"

definition suppliedNums :: SingleArgument where
  "suppliedNums =
     (sampleArg ''NUMS'' True False intSliceSlot)
       \<lparr>slot := intSliceSlot\<lparr>vdata := ListD [IntD 1, IntD 2]\<rparr>, isSet := True\<rparr>"

fun supplyAll :: "Extern \<Rightarrow> Argument \<Rightarrow> string list \<Rightarrow> error + Argument" where
  \<comment> \<open>the values supplied to one argument: a sequence of calls of its \<^verbatim>\<open>SetValue\<close>,
      stopped by the first error\<close>
  "supplyAll E a [] = Inr a"
| "supplyAll E a (val # vals) =
     (case Argument_SetValue E a val of Inl e \<Rightarrow> Inl e | Inr a' \<Rightarrow> supplyAll E a' vals)"

definition emptyFilesTarget :: "GoType \<times> GoData" where
  \<comment> \<open>\<^verbatim>\<open>struct { Files [0]string `nargs:"*"` }\<close>\<close>
  "emptyFilesTarget =
     (StructOf ''main.Options''
        [StructField ''Files'' (ArrayOf 0 StringType) [(''nargs'', ''*'')] False],
      StructD [ListD []])"

definition emptyFiles :: SingleArgument where
  "emptyFiles =
     sampleArg ''Files'' False True
       \<lparr>vtype = ArrayOf 0 StringType, vdata = ListD [], canSet = True\<rparr>"

definition numsParser :: "GoData list \<Rightarrow> ArgumentParser" where
  \<comment> \<open>one multi-valued positional over \<^verbatim>\<open>[]int\<close>, holding the given values\<close>
  "numsParser xs =
     ArgumentParser ''prog'' [] [] []
       [Multi ((sampleArg ''NUMS'' True False intSliceSlot)
                 \<lparr>slot := intSliceSlot\<lparr>vdata := ListD xs\<rparr>, isSet := (xs \<noteq> [])\<rparr>) 1 (-1)]"

definition outerTarget :: "GoType \<times> GoData" where
  \<comment> \<open>\<^verbatim>\<open>struct { Verbose bool; SUBCMD string `subcommand:"true"` }\<close>\<close>
  "outerTarget =
     (StructOf ''main.Options''
        [StructField ''Verbose'' BoolType [] False,
         StructField ''SUBCMD'' StringType [(''subcommand'', ''true'')] False],
      StructD [BoolD False, StringD []])"

definition runTarget :: "GoType \<times> GoData" where
  \<comment> \<open>\<^verbatim>\<open>struct { Verbose bool; FILE string }\<close>\<close>
  "runTarget =
     (StructOf ''main.RunOptions''
        [StructField ''Verbose'' BoolType [] False, StructField ''FILE'' StringType [] False],
      StructD [BoolD False, StringD []])"

definition runParser :: "bool \<Rightarrow> string \<Rightarrow> ArgumentParser" where
  \<comment> \<open>the parser of the subcommand \<^verbatim>\<open>run\<close>; supplied when the flag is set and the file given\<close>
  "runParser v file =
     ArgumentParser ''prog run'' ''runs'' []
       [Single ((sampleArg ''Verbose'' False True boolSlot)
                  \<lparr>slot := boolSlot\<lparr>vdata := BoolD v\<rparr>, isSet := v,
                   parserProg := ''prog run''\<rparr>)]
       [Single ((sampleArg ''FILE'' True False stringSlot)
                  \<lparr>slot := stringSlot\<lparr>vdata := StringD file\<rparr>, isSet := (file \<noteq> []),
                   parserProg := ''prog run''\<rparr>)]"

definition outerParser :: "bool \<Rightarrow> string \<Rightarrow> ArgumentParser \<Rightarrow> ArgumentParser" where
  "outerParser v cmd sub =
     ArgumentParser ''prog'' [] []
       [Single ((sampleArg ''Verbose'' False True boolSlot)
                  \<lparr>slot := boolSlot\<lparr>vdata := BoolD v\<rparr>, isSet := v\<rparr>)]
       [Subcommand ((sampleArg ''SUBCMD'' True False stringSlot)
                      \<lparr>choices := [''run''], slot := stringSlot\<lparr>vdata := StringD cmd\<rparr>,
                       isSet := (cmd \<noteq> [])\<rparr>)
          [(''run'', sub)]]"

definition timeoutTarget :: "GoType \<times> GoData" where
  \<comment> \<open>\<^verbatim>\<open>struct { Timeout int }\<close>\<close>
  "timeoutTarget =
     (StructOf ''main.Config'' [StructField ''Timeout'' IntType [] False], StructD [IntD 0])"

definition timeoutParser :: "int \<Rightarrow> bool \<Rightarrow> ArgumentParser" where
  "timeoutParser n supplied =
     ArgumentParser ''prog'' [] []
       [Single ((sampleArg ''Timeout'' False True
                   \<lparr>vtype = IntType, vdata = IntD n, canSet = True\<rparr>)\<lparr>isSet := supplied\<rparr>)] []"

definition configText :: string where
  "configText = ''timeout = 30'' @ [CHR 0x0A] @ ''unknown_key = x''"

definition nestedTarget :: "GoType \<times> GoData" where
  \<comment> \<open>\<^verbatim>\<open>struct { Inner struct { Alpha int }; Beta int }\<close>\<close>
  "nestedTarget =
     (StructOf ''main.Options''
        [StructField ''Inner''
           (StructOf ''main.Inner'' [StructField ''Alpha'' IntType [] False]) [] False,
         StructField ''Beta'' IntType [] False],
      StructD [StructD [IntD 0], IntD 0])"

definition seqTarget :: "GoType \<times> GoData" where
  \<comment> \<open>\<^verbatim>\<open>struct { Files []string `nargs:"+"`; Pair [2]string `nargs:"2"` }\<close>\<close>
  "seqTarget =
     (StructOf ''main.Options''
        [StructField ''Files'' (SliceOf StringType) [(''nargs'', ''+'')] False,
         StructField ''Pair'' (ArrayOf 2 StringType) [(''nargs'', ''2'')] False],
      StructD [ListD [], ListD [StringD [], StringD []]])"

definition filesSlot :: Value where
  "filesSlot = \<lparr>vtype = SliceOf StringType, vdata = ListD [], canSet = True\<rparr>"

definition pairSlot :: Value where
  "pairSlot = \<lparr>vtype = ArrayOf 2 StringType, vdata = ListD [StringD [], StringD []],
               canSet = True\<rparr>"


section \<open>The coercion engine: range of an 8-bit slot\<close>

lemma foldl_digits_ge: "n \<le> foldl (\<lambda>n c. n * 10 + digitVal c) n s"
proof (induction s arbitrary: n)
  case Nil show ?case by simp
next
  case (Cons c cs)
  have "n \<le> n * 10 + digitVal c" by simp
  also have "\<dots> \<le> foldl (\<lambda>n c. n * 10 + digitVal c) (n * 10 + digitVal c) cs" by (rule Cons.IH)
  finally show ?case by simp
qed

lemma parseDigits_digits:
  "\<forall>c\<in>set s. isDigitChar c \<Longrightarrow> n < 2 ^ 64 \<Longrightarrow>
   parseDigits n s =
     (if foldl (\<lambda>n c. n * 10 + digitVal c) n s < 2 ^ 64
      then Inr (foldl (\<lambda>n c. n * 10 + digitVal c) n s) else Inl ErrRange)"
proof (induction s arbitrary: n)
  case Nil then show ?case by simp
next
  case (Cons c cs)
  show ?case
  proof (cases "2 ^ 64 \<le> n * 10 + digitVal c")
    case True
    have "n * 10 + digitVal c \<le> foldl (\<lambda>n c. n * 10 + digitVal c) (n * 10 + digitVal c) cs"
      by (rule foldl_digits_ge)
    with True have "\<not> foldl (\<lambda>n c. n * 10 + digitVal c) (n * 10 + digitVal c) cs < 2 ^ 64"
      by linarith
    with True Cons.prems show ?thesis by simp
  next
    case False
    then have lt: "n * 10 + digitVal c < 2 ^ 64" by simp
    from Cons.prems have "\<forall>c\<in>set cs. isDigitChar c" by simp
    from Cons.IH[OF this lt] False Cons.prems show ?thesis by simp
  qed
qed

text \<open>
  C1 (as stated, refuted).  The claim: assigning the text \<^verbatim>\<open>"300"\<close> to an 8-bit unsigned slot
  fails with a range error.  \<open>SetValue\<close> parses every unsigned width with bit size 64 and
  \<^verbatim>\<open>SetUint\<close> stores the result converted to the slot's width: the assignment succeeds and
  the slot holds \<open>300 mod 256 = 44\<close>.
\<close>

theorem SetValue_uint8_300_counterexample:
  "SetValue testExtern uint8Slot ''300''
     = Inr \<lparr>vtype = Uint8Type, vdata = UintD 44, canSet = True\<rparr>"
  by (simp add: SetValue_def uint8Slot_def intTypes_def uintTypes_def ParseUint_def SetUint_def
      wrapUint_def isDigitChar_def digitVal_def)

text \<open>
  C1 (amended).  For every settable 8-bit unsigned slot and every non-empty text of decimal
  digits denoting the number \<open>n\<close>: if \<open>n < 2^64\<close> the assignment succeeds and the slot holds
  \<open>n mod 256\<close>; otherwise it fails with the range error of \<^verbatim>\<open>strconv.ParseUint\<close>.  Only the
  64-bit range is checked.
\<close>

theorem SetValue_uint8_wraps:
  assumes "vtype v = Uint8Type" and "canSet v" and "val \<noteq> []"
    and "\<forall>c\<in>set val. isDigitChar c"
  shows "SetValue E v val =
           (if decimalValue val < 2 ^ 64
            then Inr (v\<lparr>vdata := UintD (decimalValue val mod 256)\<rparr>)
            else Inl (NumError ''ParseUint'' val ErrRange))"
proof -
  have "parseDigits 0 val =
     (if decimalValue val < 2 ^ 64 then Inr (decimalValue val) else Inl ErrRange)"
    unfolding decimalValue_def using parseDigits_digits[OF assms(4), of 0] by simp
  then show ?thesis
    using assms(1,2,3)
    by (simp add: SetValue_def intTypes_def uintTypes_def ParseUint_def SetUint_def wrapUint_def)
qed

theorem SetValue_uint8_wraps_witness:
  "vtype uint8Slot = Uint8Type \<and> canSet uint8Slot \<and> ''18446744073709551616'' \<noteq> []
   \<and> list_all isDigitChar ''18446744073709551616''
   \<and> SetValue testExtern uint8Slot ''18446744073709551616''
       = Inl (NumError ''ParseUint'' ''18446744073709551616'' ErrRange)"
proof -
  have h1: "vtype uint8Slot = Uint8Type" and h2: "canSet uint8Slot"
    by (simp_all add: uint8Slot_def)
  have h3: "''18446744073709551616'' \<noteq> []" by simp
  have h4: "\<forall>c\<in>set ''18446744073709551616''. isDigitChar c" by (simp add: isDigitChar_def)
  have v: "\<not> decimalValue ''18446744073709551616'' < 2 ^ 64"
    by (simp add: decimalValue_def digitVal_def)
  show ?thesis using SetValue_uint8_wraps[OF h1 h2 h3 h4, of testExtern] h1 h2 h4 v by simp
qed


section \<open>Registration keeps the positional sequence well formed\<close>

lemma posArgs_withPosArgs [simp]: "posArgs (withPosArgs this xs) = xs"
  by (simp add: withPosArgs_def)

lemma posArgs_withOptArgs [simp]: "posArgs (withOptArgs this xs) = posArgs this"
  by (simp add: withOptArgs_def)

lemma optArgs_withPosArgs [simp]: "optArgs (withPosArgs this xs) = optArgs this"
  by (simp add: withPosArgs_def)

lemma optArgs_withOptArgs [simp]: "optArgs (withOptArgs this xs) = xs"
  by (simp add: withOptArgs_def)

lemma positionalInvariant_snoc:
  assumes inv: "positionalInvariant ps"
    and lastok: "ps \<noteq> [] \<Longrightarrow> \<not> IsMulti (last ps) \<and> \<not> IsSubcommand (last ps)
                   \<and> (IsOptional (last ps) \<longrightarrow> IsOptional arg)"
  shows "positionalInvariant (ps @ [arg])"
proof (cases "ps = []")
  case True
  then show ?thesis by (simp add: positionalInvariant_def)
next
  case False
  then have ps: "ps = butlast ps @ [last ps]" by simp
  from inv have bl: "list_all (\<lambda>a. \<not> IsMulti a \<and> \<not> IsSubcommand a) (butlast ps)"
    and srt: "sorted_wrt (\<lambda>a b. IsOptional a \<longrightarrow> IsOptional b) ps"
    by (simp_all add: positionalInvariant_def)
  from lastok[OF False] have l1: "\<not> IsMulti (last ps) \<and> \<not> IsSubcommand (last ps)"
    and l2: "IsOptional (last ps) \<longrightarrow> IsOptional arg" by simp_all
  have "list_all (\<lambda>a. \<not> IsMulti a \<and> \<not> IsSubcommand a) (butlast ps @ [last ps])"
    using bl l1 by simp
  then have a: "list_all (\<lambda>a. \<not> IsMulti a \<and> \<not> IsSubcommand a) ps" using ps by simp
  have b: "\<forall>x\<in>set ps. IsOptional x \<longrightarrow> IsOptional arg"
  proof
    fix x assume "x \<in> set ps"
    then have "x \<in> set (butlast ps) \<or> x = last ps" using ps
      by (metis Un_iff empty_iff empty_set set_ConsD set_append)
    moreover have "\<forall>y\<in>set (butlast ps). IsOptional y \<longrightarrow> IsOptional (last ps)"
      using srt ps by (metis list.set_intros(1) sorted_wrt_append)
    ultimately show "IsOptional x \<longrightarrow> IsOptional arg" using l2 by blast
  qed
  show ?thesis using a b srt by (simp add: positionalInvariant_def sorted_wrt_append)
qed

lemma AddArgument_preserves:
  assumes "positionalInvariant (posArgs this)" and "AddArgument this arg = Inr this'"
  shows "positionalInvariant (posArgs this')"
proof (cases "IsPositional arg")
  case False
  with assms show ?thesis by (auto simp: AddArgument_def)
next
  case True
  with assms(2) have eq: "posArgs this' = posArgs this @ [arg]"
    by (auto simp: AddArgument_def Let_def split: if_splits)
  have "posArgs this \<noteq> [] \<Longrightarrow> \<not> IsMulti (last (posArgs this)) \<and> \<not> IsSubcommand (last (posArgs this))
                   \<and> (IsOptional (last (posArgs this)) \<longrightarrow> IsOptional arg)"
    using True assms(2) by (auto simp: AddArgument_def Let_def split: if_splits)
  from positionalInvariant_snoc[OF assms(1) this] eq show ?thesis by simp
qed

lemma registerAll_preserves:
  "positionalInvariant (posArgs this) \<Longrightarrow> registerAll this args = Inr this'
   \<Longrightarrow> positionalInvariant (posArgs this')"
proof (induction args arbitrary: this)
  case Nil then show ?case by simp
next
  case (Cons a args)
  then show ?case by (auto split: sum.splits dest: AddArgument_preserves)
qed

text \<open>
  C7.  Registering a positional argument fails with a schema error when the last registered
  positional is multi-valued, when it is a subcommand, and when it is optional and the new
  argument is required.  A successful registration preserves the invariant of the
  positional sequence, so every sequence of successful registrations into a new parser
  leaves a sequence with no multi-valued or subcommand argument before its last position
  and no required argument after an optional one.
\<close>

theorem AddArgument_positional_invariant:
  "(IsPositional arg \<and> posArgs this \<noteq> [] \<and> IsMulti (last (posArgs this))
      \<longrightarrow> AddArgument this arg = Inl AfterArrayPositional)
   \<and> (IsPositional arg \<and> posArgs this \<noteq> [] \<and> \<not> IsMulti (last (posArgs this))
        \<and> IsSubcommand (last (posArgs this))
      \<longrightarrow> AddArgument this arg = Inl AfterSubcommand)
   \<and> (IsPositional arg \<and> posArgs this \<noteq> [] \<and> \<not> IsMulti (last (posArgs this))
        \<and> \<not> IsSubcommand (last (posArgs this))
        \<and> IsOptional (last (posArgs this)) \<and> \<not> IsOptional arg
      \<longrightarrow> AddArgument this arg = Inl AfterOptionalPositional)
   \<and> (positionalInvariant (posArgs this) \<and> AddArgument this arg = Inr this'
      \<longrightarrow> positionalInvariant (posArgs this'))
   \<and> (registerAll (ArgumentParser p d e [] []) args = Inr this''
      \<longrightarrow> positionalInvariant (posArgs this''))"
proof -
  have "positionalInvariant (posArgs (ArgumentParser p d e [] []))"
    by (simp add: positionalInvariant_def)
  then have "registerAll (ArgumentParser p d e [] []) args = Inr this''
      \<longrightarrow> positionalInvariant (posArgs this'')"
    using registerAll_preserves by blast
  moreover have "positionalInvariant (posArgs this) \<and> AddArgument this arg = Inr this'
      \<longrightarrow> positionalInvariant (posArgs this')"
    using AddArgument_preserves by blast
  ultimately show ?thesis by (simp add: AddArgument_def Let_def)
qed

theorem AddArgument_positional_invariant_witness:
  "AddArgument (ArgumentParser ''prog'' [] [] [] [nameArg, numsArg]) nameArg
     = Inl AfterArrayPositional
   \<and> positionalInvariant [nameArg, numsArg]"
proof -
  have r: "registerAll (ArgumentParser ''prog'' [] [] [] []) [nameArg, numsArg]
        = Inr (ArgumentParser ''prog'' [] [] [] [nameArg, numsArg])"
    by code_simp
  have p: "IsPositional nameArg" by code_simp
  have m: "IsMulti (last [nameArg, numsArg])" by code_simp
  show ?thesis
    using AddArgument_positional_invariant
      [of nameArg "ArgumentParser ''prog'' [] [] [] [nameArg, numsArg]" _ "''prog''" "[]" "[]"
          "[nameArg, numsArg]" "ArgumentParser ''prog'' [] [] [] [nameArg, numsArg]"]
      r p m
    by simp
qed


section \<open>Tokens derived from identifiers\<close>

lemma splitCamelLoop_eq:
  "i \<le> length str \<Longrightarrow> (length buf > 0 \<longleftrightarrow> i > 0) \<Longrightarrow>
   splitCamelLoop str (drop i str) i buf =
     buf @ concat (map (\<lambda>i. (if boundaryAt str i then ''-'' else []) @ [tokenByte (str ! i)])
                     [i..<length str])"
proof (induction "length str - i" arbitrary: i buf)
  case 0
  then show ?case by simp
next
  case (Suc n)
  then have lt: "i < length str" by simp
  have d: "drop i str = str ! i # drop (Suc i) str" using lt by (simp add: Cons_nth_drop_Suc)
  have u: "[i..<length str] = i # [Suc i..<length str]" using lt by (simp add: upt_conv_Cons)
  let ?buf' = "(if isUpperChar (str ! i) then
          (if length buf > 0 \<and> \<not> isUpperChar (str ! (i - 1)) \<and> str ! (i - 1) \<noteq> CHR ''-''
           then buf @ ''-'' else buf) @ [lowerByte (str ! i)]
        else if str ! i = CHR ''_'' then buf @ ''-''
        else buf @ [str ! i])"
  have b: "?buf' = buf @ (if boundaryAt str i then ''-'' else []) @ [tokenByte (str ! i)]"
    using Suc.prems(2) by (auto simp: boundaryAt_def tokenByte_def)
  have ne: "length ?buf' > 0 \<longleftrightarrow> Suc i > 0" by simp
  have n: "n = length str - Suc i" using Suc.hyps(2) by simp
  have le: "Suc i \<le> length str" using lt by simp
  have "splitCamelLoop str (drop i str) i buf = splitCamelLoop str (drop (Suc i) str) (Suc i) ?buf'"
    by (simp add: d)
  also have "\<dots> = ?buf' @ concat (map (\<lambda>i. (if boundaryAt str i then ''-'' else []) @ [tokenByte (str ! i)])
                     [Suc i..<length str])"
    using Suc.hyps(1)[OF n le ne] .
  finally show ?case by (simp only: b u) simp
qed

lemma tokenByte_not_upper: "\<not> isUpperChar (tokenByte c)"
  by (auto simp: tokenByte_def isUpperChar_def lowerByte_def)

lemma hyphen_not_upper: "\<not> isUpperChar (CHR ''-'')"
  by (simp add: isUpperChar_def)

lemma hyphenated_lower: "list_all (\<lambda>c. \<not> isUpperChar c) (hyphenated str)"
  by (auto simp: hyphenated_def list_all_iff tokenByte_not_upper hyphen_not_upper)

text \<open>
  C8.  An identifier that is not fully upper-case (\<^verbatim>\<open>strings.ToUpper\<close> changes it) yields
  the hyphenated token: no upper-case letter is left and a separator is inserted exactly
  before each upper-case letter that follows a byte which is neither upper-case nor a
  separator; such an identifier is optional and not positional by convention.  A fully
  upper-case identifier is left unchanged and is positional (and required) by convention.
  Identifiers are ASCII text.
\<close>

theorem splitCamelString_token:
  "(ToUpper str \<noteq> str \<longrightarrow>
       splitCamelString str = hyphenated str
       \<and> list_all (\<lambda>c. \<not> isUpperChar c) (splitCamelString str)
       \<and> derivedClass str = (False, True))
   \<and> (ToUpper str = str \<longrightarrow> splitCamelString str = str \<and> derivedClass str = (True, False))"
proof -
  have "splitCamelLoop str (drop 0 str) 0 [] = hyphenated str"
    unfolding hyphenated_def by (subst splitCamelLoop_eq) simp_all
  then have "ToUpper str \<noteq> str \<longrightarrow> splitCamelString str = hyphenated str"
    by (simp add: splitCamelString_def)
  then show ?thesis
    using hyphenated_lower[of str] by (auto simp: splitCamelString_def derivedClass_def)
qed

theorem splitCamelString_token_witness:
  "splitCamelString ''AuthURL'' = ''auth-url'' \<and> derivedClass ''AuthURL'' = (False, True)
   \<and> splitCamelString ''NAME'' = ''NAME'' \<and> derivedClass ''NAME'' = (True, False)"
proof -
  have h1: "ToUpper ''AuthURL'' \<noteq> ''AuthURL''" by code_simp
  have h2: "hyphenated ''AuthURL'' = ''auth-url''" by code_simp
  have h3: "ToUpper ''NAME'' = ''NAME''" by code_simp
  show ?thesis
    using splitCamelString_token[of "''AuthURL''"] splitCamelString_token[of "''NAME''"] h1 h2 h3
    by simp
qed

section \<open>Evaluating the model on concrete inputs\<close>

lemma eq_char_of_iff: "c = char_of n \<longleftrightarrow> take_bit 8 n = (of_char c :: nat)"
  using char_of_eq_iff[of n c] by auto

lemmas model_defs = char_of_eq_iff eq_char_of_iff
  testExtern_def sampleArg_def stringSlot_def intSliceSlot_def boolSlot_def
  fooParser_def numsParser_def runParser_def outerParser_def timeoutParser_def
  ParseArgs.simps parseLoop.simps Validate_def SingleArgument_Validate_def MultiArgument_Validate_def
  ValueLen_def ValueSet_def ValueString_def GetSubParser_def
  findOptionalArgument_def Token_def ShortToken_def MetaVar_def splitCamelString_def
  ToUpper_def upperByte_def lowerByte_def isUpperChar_def isLowerChar_def isDigitChar_def
  digitVal_def HasPrefix_def TrimLeft_def Trim_def Replace_def
  NeedData_def IsOptional_def IsPositional_def InChoices_def
  Argument_SetValue_def SingleArgument_SetValue_def MultiArgument_SetValue_def DoAction_def
  SetValue_def SetBool_def SetInt_def SetUint_def SetString_def AppendValue_def
  SliceBaseType_def ParseValue_def ValueOf_def ParseInt_def ParseUint_def ParseBool_def
  intTypes_def uintTypes_def wrapInt_def wrapUint_def
  withOptArgs_def withPosArgs_def

lemmas schema_defs =
  NewArgumentParser_def addArgument_def AddArgument_def TagGet_def derivedClass_def
  exported_def TAG_HELP_def TAG_TOKEN_def TAG_SHORT_TOKEN_def TAG_METAVAR_def TAG_DEFAULT_def
  TAG_CHOICES_def TAG_OPTIONAL_def TAG_SUBCOMMAND_def TAG_NARGS_def

lemma fooParser_built: "NewArgumentParser testExtern fooTarget ''prog'' [] [] = Inr fooParser"
  by code_simp

lemma requiredFiles_built:
  "NewArgumentParser testExtern filesTarget ''prog'' [] []
     = Inr (ArgumentParser ''prog'' [] [] [requiredFiles] [])"
  by code_simp

lemma timeoutParser_built:
  "NewArgumentParser testExtern timeoutTarget ''prog'' [] [] = Inr (timeoutParser 0 False)"
  by code_simp

lemma outerParser_built:
  "NewArgumentParser testExtern outerTarget ''prog'' [] []
     = Inr (ArgumentParser ''prog'' [] []
              [Single (sampleArg ''Verbose'' False True boolSlot)]
              [Subcommand (sampleArg ''SUBCMD'' True False stringSlot) []])
   \<and> AddSubParser testExtern (Subcommand (sampleArg ''SUBCMD'' True False stringSlot) [])
         runTarget ''run'' ''runs''
     = Inr (last (posArgs (outerParser False [] (runParser False []))))"
  by code_simp

lemma numsParser_strict:
  "ParseArgs testExtern (numsParser []) [''1'', ''x'', ''2''] False
     = Inr (numsParser [IntD 1, IntD 2])"
  by (simp add: model_defs)

lemma outerParser_run:
  "ParseArgs testExtern (outerParser False [] (runParser False []))
       [''--verbose'', ''run'', ''--verbose'', ''x''] False
     = Inr (outerParser True ''run'' (runParser True ''x''))"
  by (simp add: model_defs)

section \<open>Ambiguous prefixes\<close>

lemma findOptionalLoop_second:
  "m \<noteq> None \<Longrightarrow> \<exists>x\<in>set args. matchesToken x tok \<Longrightarrow> findOptionalLoop args tok k m = None"
  by (induction args arbitrary: k) (auto simp: matchesToken_def)

lemma findOptionalLoop_two:
  "i < j \<Longrightarrow> j < length args \<Longrightarrow> matchesToken (args ! i) tok \<Longrightarrow> matchesToken (args ! j) tok
   \<Longrightarrow> findOptionalLoop args tok k m = None"
proof (induction args arbitrary: i j k m)
  case Nil then show ?case by simp
next
  case (Cons x xs)
  from Cons.prems have jpos: "0 < j" by simp
  then have xj: "xs ! (j - 1) = (x # xs) ! j" by (cases j) simp_all
  have jl: "j - 1 < length xs" using Cons.prems(2) jpos by simp
  show ?case
  proof (cases "matchesToken x tok")
    case True
    have ex: "\<exists>y\<in>set xs. matchesToken y tok"
      using jl xj Cons.prems(4) by (metis nth_mem)
    show ?thesis
    proof (cases "m = None")
      case True
      have "findOptionalLoop xs tok (k + 1) (Some k) = None"
        by (rule findOptionalLoop_second[OF _ ex]) simp
      with True \<open>matchesToken x tok\<close> show ?thesis by (simp add: matchesToken_def)
    next
      case False
      with \<open>matchesToken x tok\<close> show ?thesis by (simp add: matchesToken_def)
    qed
  next
    case False
    with Cons.prems(3) have ipos: "0 < i" by (cases i) auto
    then have xi: "xs ! (i - 1) = (x # xs) ! i" by (cases i) simp_all
    have "findOptionalLoop xs tok (k + 1) m = None"
      by (rule Cons.IH[of "i - 1" "j - 1"]) (use Cons.prems ipos jpos xi xj jl in auto)
    with False show ?thesis by (simp add: matchesToken_def)
  qed
qed

text \<open>
  C4 (as stated, refuted).  The claim: an input that supplies a prefix shared by two
  registered optional arguments fails with an ambiguity error.  \<open>findOptionalArgument\<close>
  answers an ambiguous prefix with \<^verbatim>\<open>nil\<close>, as it answers an unknown one, and \<open>ParseArgs\<close>
  skips the token when unknown arguments are ignored: the lenient parse of \<^verbatim>\<open>--foo\<close>
  against \<^verbatim>\<open>--foo-alpha\<close> and \<^verbatim>\<open>--foo-beta\<close> succeeds and changes nothing.
\<close>

theorem ambiguous_prefix_lenient_counterexample:
  "ParseArgs testExtern fooParser [''--foo''] True = Inr fooParser"
  by (simp add: model_defs)

text \<open>
  C4 (amended).  When two different registered optional arguments both have the
  marker-stripped token as a prefix of their long or short token, whatever their order,
  no argument is found; a strict parse fails there with the unknown-optional-argument
  error (the package has no separate ambiguity error), and a lenient parse skips the token.
\<close>

theorem ambiguous_prefix_is_unknown:
  assumes "HasPrefix a ''-''"
    and "i \<noteq> j" and "i < length (optArgs this)" and "j < length (optArgs this)"
    and "matchesToken (optArgs this ! i) (TrimLeft a (CHR ''-''))"
    and "matchesToken (optArgs this ! j) (TrimLeft a (CHR ''-''))"
  shows "findOptionalArgument this (TrimLeft a (CHR ''-'')) = None
         \<and> parseLoop E this pos_idx (a # rest) False = Inl (UnknownOptional a)
         \<and> ParseArgs E this (a # rest) False = Inl (UnknownOptional a)
         \<and> parseLoop E this pos_idx (a # rest) True = parseLoop E this pos_idx rest True"
proof -
  have f: "findOptionalArgument this (TrimLeft a (CHR ''-'')) = None"
  proof (cases "i < j")
    case True
    then show ?thesis unfolding findOptionalArgument_def
      using assms by (intro findOptionalLoop_two[of i j]) auto
  next
    case False
    with assms(2) have "j < i" by simp
    then show ?thesis unfolding findOptionalArgument_def
      using assms by (intro findOptionalLoop_two[of j i]) auto
  qed
  then show ?thesis using assms(1) by (simp add: ParseArgs.simps parseLoop.simps)
qed


theorem ambiguous_prefix_is_unknown_witness:
  "ParseArgs testExtern fooParser [''--foo''] False = Inl (UnknownOptional ''--foo'')"
proof -
  have h1: "HasPrefix ''--foo'' ''-''" by code_simp
  have h2: "matchesToken (optArgs fooParser ! 0) (TrimLeft ''--foo'' (CHR ''-''))" by code_simp
  have h3: "matchesToken (optArgs fooParser ! 1) (TrimLeft ''--foo'' (CHR ''-''))" by code_simp
  have h4: "0 < length (optArgs fooParser)" "1 < length (optArgs fooParser)" by code_simp+
  show ?thesis
    using ambiguous_prefix_is_unknown[OF h1 _ h4 h2 h3, of testExtern 0 "[]"] by simp
qed

section \<open>Validation of a multi-valued argument\<close>

lemma MultiArgument_Validate_length:
  assumes "isSet sa \<or> \<not> useDefault sa" and "ValueLen (slot sa) = Inr n"
  shows "(\<exists>sa'. MultiArgument_Validate sa mn mx = Inr sa')
           \<longleftrightarrow> (optional sa \<or> isSet sa) \<and> (mn < 0 \<or> mn \<le> n) \<and> (mx < 0 \<or> n \<le> mx)"
  using assms by (auto simp: MultiArgument_Validate_def SingleArgument_Validate_def)

lemma ParseValue_scalar:
  "ParseValue E val tp = Inr d \<Longrightarrow> KindOf tp \<noteq> KArray \<and> KindOf tp \<noteq> KSlice"
  by (auto simp: ParseValue_def intTypes_def uintTypes_def split: if_splits)

lemma MultiArgument_SetValue_appends:
  assumes "Argument_SetValue E (Multi sa mn mx) val = Inr a'" and "vdata (slot sa) = ListD xs"
  shows "\<exists>d. a' = Multi (sa\<lparr>slot := (slot sa)\<lparr>vdata := ListD (xs @ [d])\<rparr>, isSet := True\<rparr>) mn mx"
  using assms
  by (auto simp: Argument_SetValue_def MultiArgument_SetValue_def AppendValue_def
           split: if_splits sum.splits option.splits)

lemma supplyAll_appends:
  assumes "supplyAll E (Multi sa mn mx) vals = Inr a" and "vdata (slot sa) = ListD xs"
  shows "\<exists>sa' ys. a = Multi sa' mn mx \<and> length ys = length vals
           \<and> vdata (slot sa') = ListD (xs @ ys) \<and> vtype (slot sa') = vtype (slot sa)
           \<and> optional sa' = optional sa \<and> useDefault sa' = useDefault sa
           \<and> (isSet sa' \<longleftrightarrow> isSet sa \<or> vals \<noteq> [])"
  using assms
proof (induction vals arbitrary: sa xs)
  case Nil
  then show ?case by auto
next
  case (Cons val vals)
  from Cons.prems(1) obtain a1 where s1: "Argument_SetValue E (Multi sa mn mx) val = Inr a1"
    and r: "supplyAll E a1 vals = Inr a"
    by (auto split: sum.splits)
  from MultiArgument_SetValue_appends[OF s1 Cons.prems(2)] obtain d where
    a1: "a1 = Multi (sa\<lparr>slot := (slot sa)\<lparr>vdata := ListD (xs @ [d])\<rparr>, isSet := True\<rparr>) mn mx"
    by blast
  let ?sa1 = "sa\<lparr>slot := (slot sa)\<lparr>vdata := ListD (xs @ [d])\<rparr>, isSet := True\<rparr>"
  have v1: "vdata (slot ?sa1) = ListD (xs @ [d])" by simp
  from Cons.IH[OF r[unfolded a1] v1] obtain sa' ys where
    h: "a = Multi sa' mn mx" "length ys = length vals"
       "vdata (slot sa') = ListD ((xs @ [d]) @ ys)" "vtype (slot sa') = vtype (slot ?sa1)"
       "optional sa' = optional ?sa1" "useDefault sa' = useDefault ?sa1"
       "isSet sa' \<longleftrightarrow> isSet ?sa1 \<or> vals \<noteq> []"
    by blast
  have "length (d # ys) = length (val # vals)" using h(2) by simp
  moreover have "vdata (slot sa') = ListD (xs @ (d # ys))" using h(3) by simp
  ultimately show ?case using h(1,4,5,6,7) by (intro exI[of _ sa'] exI[of _ "d # ys"]) simp
qed

text \<open>
  C5 (as stated, refuted).  The claim: validation succeeds exactly when the number of
  values lies within the bounds.  \<^verbatim>\<open>MultiArgument.Validate\<close> runs the validation of
  \<^verbatim>\<open>SingleArgument\<close> first: a required argument that was not supplied and has no default is
  rejected although its bounds, here \<open>[0, -1]\<close>, admit no value at all.
\<close>

theorem MultiArgument_Validate_required_counterexample:
  "Argument_Validate requiredFiles = Inl (NotSet ''Files'')"
  by code_simp

text \<open>
  C5 (amended).  Take a multi-valued argument that was not supplied, whose sequence is
  empty, and supply \<open>k\<close> values to it with success, a default being copied in no case
  (values were supplied or the argument has none).  Validation then succeeds exactly when
  the argument is optional or \<open>k > 0\<close>, and \<open>min \<le> k \<le> max\<close>, a negative bound being no
  bound.  With the bounds \<open>[1, -1]\<close> validation succeeds exactly when \<open>k > 0\<close>: zero
  supplied values are rejected and every positive count is accepted.
\<close>

theorem MultiArgument_Validate_supplied:
  assumes "vdata (slot sa) = ListD []" and "\<not> isSet sa"
    and "KindOf (vtype (slot sa)) = KSlice \<or> KindOf (vtype (slot sa)) = KArray"
    and "vals \<noteq> [] \<or> \<not> useDefault sa"
    and "supplyAll E (Multi sa mn mx) vals = Inr a"
  shows "((\<exists>a'. Argument_Validate a = Inr a')
            \<longleftrightarrow> (optional sa \<or> vals \<noteq> [])
                \<and> (mn < 0 \<or> mn \<le> int (length vals)) \<and> (mx < 0 \<or> int (length vals) \<le> mx))
         \<and> (mn = 1 \<and> mx = -1 \<longrightarrow> ((\<exists>a'. Argument_Validate a = Inr a') \<longleftrightarrow> vals \<noteq> []))"
proof -
  from supplyAll_appends[OF assms(5) assms(1)] obtain sa' ys where
    h: "a = Multi sa' mn mx" "length ys = length vals"
       "vdata (slot sa') = ListD ys" "vtype (slot sa') = vtype (slot sa)"
       "optional sa' = optional sa" "useDefault sa' = useDefault sa"
       "isSet sa' \<longleftrightarrow> vals \<noteq> []"
    using assms(2) by auto
  have len: "ValueLen (slot sa') = Inr (int (length vals))"
    using h(2,3,4) assms(3) by (auto simp: ValueLen_def)
  have nodef: "isSet sa' \<or> \<not> useDefault sa'" using h(6,7) assms(4) by simp
  have v: "(\<exists>a'. Argument_Validate a = Inr a')
             \<longleftrightarrow> (\<exists>s. MultiArgument_Validate sa' mn mx = Inr s)"
    unfolding h(1) by (auto split: sum.splits)
  have main: "(\<exists>a'. Argument_Validate a = Inr a')
            \<longleftrightarrow> (optional sa \<or> vals \<noteq> [])
                \<and> (mn < 0 \<or> mn \<le> int (length vals)) \<and> (mx < 0 \<or> int (length vals) \<le> mx)"
    unfolding v MultiArgument_Validate_length[OF nodef len] using h(5,7) by simp
  have "mn = 1 \<and> mx = -1 \<longrightarrow> ((\<exists>a'. Argument_Validate a = Inr a') \<longleftrightarrow> vals \<noteq> [])"
    unfolding main by (cases vals) auto
  with main show ?thesis by blast
qed

lemma emptyFiles_built:
  "NewArgumentParser testExtern emptyFilesTarget ''prog'' [] []
     = Inr (ArgumentParser ''prog'' [] [] [Multi emptyFiles 0 (-1)] [])"
  by code_simp

lemma suppliedNums_supplied:
  "supplyAll testExtern numsArg [''1'', ''2''] = Inr (Multi suppliedNums 1 (-1))"
  by (simp add: model_defs numsArg_def suppliedNums_def)

theorem MultiArgument_Validate_supplied_witness:
  "(\<exists>a'. Argument_Validate (Multi suppliedNums 1 (-1)) = Inr a')
   \<and> (\<exists>a'. Argument_Validate (Multi emptyFiles 0 (-1)) = Inr a')"
proof -
  let ?sa = "sampleArg ''NUMS'' True False intSliceSlot"
  have h1: "vdata (slot ?sa) = ListD []" by code_simp
  have h2: "\<not> isSet ?sa" by code_simp
  have h3: "KindOf (vtype (slot ?sa)) = KSlice \<or> KindOf (vtype (slot ?sa)) = KArray"
    by code_simp
  have h4: "[''1'', ''2''] \<noteq> [] \<or> \<not> useDefault ?sa" by simp
  have h5: "supplyAll testExtern (Multi ?sa 1 (-1)) [''1'', ''2'']
              = Inr (Multi suppliedNums 1 (-1))"
    using suppliedNums_supplied by (simp add: numsArg_def)
  have g1: "vdata (slot emptyFiles) = ListD []" by code_simp
  have g2: "\<not> isSet emptyFiles" by code_simp
  have g3: "KindOf (vtype (slot emptyFiles)) = KSlice \<or> KindOf (vtype (slot emptyFiles)) = KArray"
    by code_simp
  have g4: "([]::string list) \<noteq> [] \<or> \<not> useDefault emptyFiles" by code_simp
  have g5: "supplyAll testExtern (Multi emptyFiles 0 (-1)) [] = Inr (Multi emptyFiles 0 (-1))"
    by simp
  have g6: "optional emptyFiles" by code_simp
  show ?thesis
    using MultiArgument_Validate_supplied[OF h1 h2 h3 h4 h5]
          MultiArgument_Validate_supplied[OF g1 g2 g3 g4 g5] g6
    by simp
qed

section \<open>Values beyond the declared positionals\<close>

text \<open>
  C10.  When every declared positional is filled and the last one is multi-valued, a
  further token without the marker is appended to it, and an error of that append (a value
  outside the choices, a value that does not parse) is dropped: the loop goes on with the
  parser unchanged, in strict mode as in lenient mode.
\<close>

theorem overflow_error_discarded:
  assumes "\<not> HasPrefix a ''-''" and "posArgs this \<noteq> []"
    and "length (posArgs this) \<le> pos_idx" and "IsMulti (last (posArgs this))"
    and "Argument_SetValue E (last (posArgs this)) a = Inl e" and "e \<noteq> Panic"
  shows "parseLoop E this pos_idx (a # rest) ignore_unknown
           = parseLoop E this pos_idx rest ignore_unknown"
  using assms by (cases e) (simp_all add: parseLoop.simps)

theorem overflow_error_discarded_witness:
  "parseLoop testExtern (numsParser [IntD 1]) 1 [''x'', ''2''] False
     = Inr (numsParser [IntD 1, IntD 2], 1)"
proof -
  have h1: "\<not> HasPrefix ''x'' ''-''" by code_simp
  have h2: "posArgs (numsParser [IntD 1]) \<noteq> []" by code_simp
  have h3: "length (posArgs (numsParser [IntD 1])) \<le> 1" by code_simp
  have h4: "IsMulti (last (posArgs (numsParser [IntD 1])))" by code_simp
  have h5: "Argument_SetValue testExtern (last (posArgs (numsParser [IntD 1]))) ''x''
              = Inl (NumError ''ParseInt'' ''x'' ErrSyntax)" by code_simp
  have h6: "NumError ''ParseInt'' ''x'' ErrSyntax \<noteq> Panic" by simp
  have h7: "parseLoop testExtern (numsParser [IntD 1]) 1 [''2''] False
              = Inr (numsParser [IntD 1, IntD 2], 1)" by (simp add: model_defs)
  show ?thesis
    using overflow_error_discarded[OF h1 h2 h3 h4 h5 h6, of "[''2'']" False] h7 by simp
qed

section \<open>Delegation to the parser of a subcommand\<close>

lemma string_subcommand_filled:
  assumes "vtype (slot sa) = StringType" and "canSet (slot sa)" and "InChoices sa name"
    and "map_of subs name = Some p"
  shows "Argument_SetValue E (Subcommand sa subs) name
           = Inr (Subcommand (sa\<lparr>slot := (slot sa)\<lparr>vdata := StringD name\<rparr>, isSet := True\<rparr>) subs)
         \<and> GetSubParser
               (Subcommand (sa\<lparr>slot := (slot sa)\<lparr>vdata := StringD name\<rparr>, isSet := True\<rparr>) subs)
             = Some p"
  using assms
  by (simp add: Argument_SetValue_def SingleArgument_SetValue_def SetValue_def intTypes_def
        uintTypes_def SetString_def GetSubParser_def ValueString_def)

lemma AddSubParser_registers:
  assumes "AddSubParser E (Subcommand sa subs) target command desc = Inr a'"
  shows "InChoices (base a') command \<and> (\<exists>p. map_of (subcommands a') command = Some p)"
  using assms
  by (auto simp: AddSubParser_def InChoices_def update_conv' split: sum.splits)

text \<open>
  C6.  When a token without the marker fills a positional that is a subcommand and names
  a registered command, the loop ends there: its result is the result of that command's
  parser on all the tokens that follow, in the same mode.  An error of the nested parser is
  the error of the loop; otherwise the position has advanced by one and the outer parser
  differs from the one before the token only in the subcommand argument, which holds the
  nested parser as the nested parse left it.
\<close>

theorem subcommand_delegation:
  assumes "\<not> HasPrefix name ''-''" and "pos_idx < length (posArgs this)"
    and "Argument_SetValue E (posArgs this ! pos_idx) name = Inr arg'"
    and "IsSubcommand arg'" and "GetSubParser arg' = Some subparser"
  shows "parseLoop E this pos_idx (name # rest) ig =
           (case ParseArgs E subparser rest ig of
              Inl e \<Rightarrow> Inl e
            | Inr subparser' \<Rightarrow>
                Inr (withPosArgs this ((posArgs this)[pos_idx :=
                       Subcommand (base arg')
                         (AList.update (ValueString (slot (base arg'))) subparser'
                            (subcommands arg'))]),
                     pos_idx + 1))
         \<and> (\<forall>this' k. parseLoop E this pos_idx (name # rest) ig = Inr (this', k) \<longrightarrow>
               k = pos_idx + 1 \<and> optArgs this' = optArgs this
               \<and> length (posArgs this') = length (posArgs this)
               \<and> (\<forall>i < length (posArgs this). i \<noteq> pos_idx
                     \<longrightarrow> posArgs this' ! i = posArgs this ! i)
               \<and> (\<exists>subparser'. ParseArgs E subparser rest ig = Inr subparser'
                     \<and> GetSubParser (posArgs this' ! pos_idx) = Some subparser'))"
proof -
  have eq: "parseLoop E this pos_idx (name # rest) ig =
           (case ParseArgs E subparser rest ig of
              Inl e \<Rightarrow> Inl e
            | Inr subparser' \<Rightarrow>
                Inr (withPosArgs this ((posArgs this)[pos_idx :=
                       Subcommand (base arg')
                         (AList.update (ValueString (slot (base arg'))) subparser'
                            (subcommands arg'))]),
                     pos_idx + 1))"
    using assms by (simp add: parseLoop.simps)
  show ?thesis
  proof (cases "ParseArgs E subparser rest ig")
    case (Inl e)
    with eq show ?thesis by simp
  next
    case (Inr subparser')
    with eq assms(2) show ?thesis
      by (auto simp: GetSubParser_def update_conv')
  qed
qed

theorem subcommand_delegation_witness:
  "parseLoop testExtern (outerParser True [] (runParser False [])) 0
       [''run'', ''--verbose'', ''x''] False
     = Inr (outerParser True ''run'' (runParser True ''x''), 1)"
proof -
  have h1: "\<not> HasPrefix ''run'' ''-''" by code_simp
  have h2: "0 < length (posArgs (outerParser True [] (runParser False [])))" by code_simp
  have h3: "Argument_SetValue testExtern
              (posArgs (outerParser True [] (runParser False [])) ! 0) ''run''
            = Inr (posArgs (outerParser True ''run'' (runParser False [])) ! 0)" by code_simp
  have h4: "IsSubcommand (posArgs (outerParser True ''run'' (runParser False [])) ! 0)"
    by code_simp
  have h5: "GetSubParser (posArgs (outerParser True ''run'' (runParser False [])) ! 0)
            = Some (runParser False [])" by code_simp
  have h6: "ParseArgs testExtern (runParser False []) [''--verbose'', ''x''] False
            = Inr (runParser True ''x'')" by (simp add: model_defs)
  have h7: "withPosArgs (outerParser True [] (runParser False []))
              ((posArgs (outerParser True [] (runParser False [])))[0 :=
                 Subcommand (base (posArgs (outerParser True ''run'' (runParser False [])) ! 0))
                   (AList.update
                      (ValueString
                         (slot (base (posArgs (outerParser True ''run'' (runParser False [])) ! 0))))
                      (runParser True ''x'')
                      (subcommands (posArgs (outerParser True ''run'' (runParser False [])) ! 0)))])
            = outerParser True ''run'' (runParser True ''x'')" by code_simp
  from subcommand_delegation[OF h1 h2 h3 h4 h5, of "[''--verbose'', ''x'']" False]
  have "parseLoop testExtern (outerParser True [] (runParser False [])) 0
          [''run'', ''--verbose'', ''x''] False
        = (case ParseArgs testExtern (runParser False []) [''--verbose'', ''x''] False of
             Inl e \<Rightarrow> Inl e
           | Inr subparser' \<Rightarrow>
               Inr (withPosArgs (outerParser True [] (runParser False []))
                      ((posArgs (outerParser True [] (runParser False [])))[0 :=
                         Subcommand
                           (base (posArgs (outerParser True ''run'' (runParser False [])) ! 0))
                           (AList.update
                              (ValueString
                                 (slot (base (posArgs (outerParser True ''run''
                                                         (runParser False [])) ! 0))))
                              subparser'
                              (subcommands (posArgs (outerParser True ''run''
                                                       (runParser False [])) ! 0)))]),
                    0 + 1))"
    by (rule conjunct1)
  then show ?thesis by (simp only: h6 h7 sum.case add_0)
qed

section \<open>Reading a key-value file\<close>

lemma IndexByte_absent: "c \<notin> set s \<Longrightarrow> IndexByte s c = -1"
  by (induction s) (auto simp: Let_def)

lemma parseLines_misformated:
  "CHR ''='' \<notin> set line \<Longrightarrow> parseLines E this logged (line # lines) = Inl (MisformatedLine line)"
  by (simp add: IndexByte_absent)

lemma parseLines_fails:
  "line \<in> set lines \<Longrightarrow> CHR ''='' \<notin> set line \<Longrightarrow> \<exists>e. parseLines E this logged lines = Inl e"
proof (induction lines arbitrary: this logged)
  case Nil then show ?case by simp
next
  case (Cons l ls)
  show ?case
  proof (cases "CHR ''='' \<notin> set l")
    case True
    then show ?thesis using parseLines_misformated by blast
  next
    case False
    with Cons.prems have mem: "line \<in> set ls" by auto
    let ?pos = "IndexByte l (CHR ''='')"
    show ?thesis
    proof (cases "?pos > 0 \<and> ?pos < int (length l)")
      case False
      then show ?thesis by (auto simp: Let_def)
    next
      case True
      let ?key = "Replace (Trim (take (nat ?pos) l) (CHR '' '')) (CHR ''_'') (CHR ''-'')"
      let ?val = "Trim (drop (nat ?pos + 1) l) (CHR '' '')"
      show ?thesis
      proof (cases "parseKeyValue E this ?key ?val")
        case (Inl e)
        from Cons.IH[OF mem Cons.prems(2), of this logged]
        obtain e' where "parseLines E this logged ls = Inl e'" by blast
        with Inl True show ?thesis by (cases e) (simp_all add: Let_def)
      next
        case (Inr r)
        obtain this' msgs where r: "r = (this', msgs)" by (cases r)
        from Cons.IH[OF mem Cons.prems(2), of this' "logged @ msgs"]
        obtain e' where "parseLines E this' (logged @ msgs) ls = Inl e'" by blast
        with Inr r True show ?thesis by (simp add: Let_def)
      qed
    qed
  qed
qed

lemma configText_read:
  "ParseFile testExtern (timeoutParser 0 False) (Inr configText)
     = Inr (timeoutParser 30 True, [''Cannot found argument unknown-key''])"
  by (simp add: model_defs ParseFile_def scanLines_def rawLines_def dropCR_def
        parseKeyValue_def configText_def Let_def)

text \<open>
  C9.  Reading \<^verbatim>\<open>timeout = 30\<close>, \<^verbatim>\<open>unknown_key = x\<close> against the parser of
  \<^verbatim>\<open>struct { Timeout int }\<close> succeeds: the slot of \<^verbatim>\<open>timeout\<close> holds 30 and the key that
  matches no argument is logged.  A line without the separator is a format error at once,
  whatever follows it, and no content with such a line among its scanned lines is read
  with success.
\<close>

theorem ParseFile_config:
  "ParseFile testExtern (timeoutParser 0 False) (Inr configText)
     = Inr (timeoutParser 30 True, [''Cannot found argument unknown-key''])
   \<and> (CHR ''='' \<notin> set line
        \<longrightarrow> parseLines E this logged (line # lines) = Inl (MisformatedLine line))
   \<and> (line \<in> set (fst (scanLines content)) \<and> CHR ''='' \<notin> set line
        \<longrightarrow> (\<exists>e. ParseFile E this (Inr content) = Inl e))"
proof -
  have "line \<in> set (fst (scanLines content)) \<and> CHR ''='' \<notin> set line
        \<longrightarrow> (\<exists>e. ParseFile E this (Inr content) = Inl e)"
  proof
    assume a: "line \<in> set (fst (scanLines content)) \<and> CHR ''='' \<notin> set line"
    then obtain e where "parseLines E this [] (fst (scanLines content)) = Inl e"
      using parseLines_fails[of line "fst (scanLines content)" E this "[]"] by blast
    then show "\<exists>e. ParseFile E this (Inr content) = Inl e" by (simp add: ParseFile_def)
  qed
  then show ?thesis using configText_read parseLines_misformated by blast
qed

theorem ParseFile_config_witness:
  "parseLines testExtern (timeoutParser 0 False) [] [''garbage'', ''timeout = 30'']
     = Inl (MisformatedLine ''garbage'')"
proof -
  have h: "CHR ''='' \<notin> set ''garbage''" by simp
  show ?thesis
    using ParseFile_config[of "''garbage''" testExtern "timeoutParser 0 False" "[]"
        "[''timeout = 30'']" "[]"] h
    by simp
qed

section \<open>Schema derivation on nested structures and sequences\<close>

lemma addStructFields_nested_stops:
  "KindOf tp = KStruct \<Longrightarrow>
   addStructFields E this (StructField name tp tag anon # fs) (d # ds) cs
     = addStructArgument E this tp
         \<lparr>vtype = tp, vdata = d, canSet = (cs \<and> (exported name \<or> anon))\<rparr>"
  by simp

text \<open>
  C2 (the code departs from the claim).  \<open>addStructArgument\<close> returns the result of the
  recursive call on a nested structure, so the fields declared after it are never visited:
  for \<^verbatim>\<open>struct { Inner struct { Alpha int }; Beta int }\<close> the parser has an argument for
  \<^verbatim>\<open>Alpha\<close> and none for \<^verbatim>\<open>Beta\<close>.
\<close>

theorem nested_struct_drops_later_fields:
  "NewArgumentParser testExtern nestedTarget ''prog'' [] []
     = Inr (ArgumentParser ''prog'' [] []
              [Single (sampleArg ''Alpha'' False True
                         \<lparr>vtype = IntType, vdata = IntD 0, canSet = True\<rparr>)] [])"
  by code_simp

text \<open>
  C3 (the code departs from the claim).  \<open>addArgument\<close> builds a multi-valued argument for
  a field of array kind only, and \<open>AppendValue\<close> appends to slices only.  For
  \<^verbatim>\<open>struct { Files []string `nargs:"+"`; Pair [2]string `nargs:"2"` }\<close> the slice field
  gets a scalar argument, which no value can be assigned to, and the array field gets a
  multi-valued argument, which no value can be appended to.
\<close>

theorem sequence_fields_not_appendable:
  "NewArgumentParser testExtern seqTarget ''prog'' [] []
     = Inr (ArgumentParser ''prog'' [] []
              [Single (sampleArg ''Files'' False True filesSlot),
               Multi (sampleArg ''Pair'' False True pairSlot) 2 2] [])
   \<and> Argument_SetValue testExtern (Single (sampleArg ''Files'' False True filesSlot)) ''a''
       = Inl (UnsupportedType (SliceOf StringType))
   \<and> Argument_SetValue testExtern (Multi (sampleArg ''Pair'' False True pairSlot) 2 2) ''a''
       = Inl CannotAppendNonSlice"
  by (simp add: model_defs schema_defs seqTarget_def filesSlot_def pairSlot_def)

end
